theory Spec2Isabelle
  imports Complex_Main
begin

unbundle bit_operations_syntax

section \<open>Values of the program\<close>

text \<open>
  The model follows \<^verbatim>\<open>src/handler.py\<close>. Python's \<^verbatim>\<open>float\<close> is modelled by
  \<^typ>\<open>real\<close>: arithmetic is exact, there is no rounding, no NaN and no signed zero.
  Python's unbounded \<^verbatim>\<open>int\<close> is \<^typ>\<open>int\<close>. Every exception the modelled code can
  raise is a value of \<open>py_error\<close>, returned as \<open>Inl\<close>.
\<close>

datatype py_error = ZeroDivisionError | KeyError | IndexError

text \<open>\<^verbatim>\<open>int(x)\<close> on a float truncates towards zero.\<close>

definition py_int :: "real \<Rightarrow> int" where
  "py_int x = (if 0 \<le> x then \<lfloor>x\<rfloor> else \<lceil>x\<rceil>)"

text \<open>True division \<^verbatim>\<open>a / b\<close> raises on a zero divisor.\<close>

definition py_truediv :: "real \<Rightarrow> real \<Rightarrow> py_error + real" where
  "py_truediv a b = (if b = 0 then Inl ZeroDivisionError else Inr (a / b))"

section \<open>MIDI setup constants\<close>

definition MIDI_CHANNEL :: int where "MIDI_CHANNEL = 0"
definition CC_LEFT_HAND :: int where "CC_LEFT_HAND = 20"
definition CC_RIGHT_HAND :: int where "CC_RIGHT_HAND = 21"
definition CC_THUMB_TO_THUMB :: int where "CC_THUMB_TO_THUMB = 22"
definition CC_INDEX_TO_INDEX :: int where "CC_INDEX_TO_INDEX = 23"

text \<open>
  The distance range \<^verbatim>\<open>MIN_DIST_PX\<close>, \<^verbatim>\<open>MAX_DIST_PX\<close> is a pair of module constants
  that the default arguments of \<^verbatim>\<open>normalize_to_cc\<close> read. They are kept in a record
  that the per-frame functions take, so that statements about other ranges can be
  written; \<open>default_config\<close> holds the values of the source.
\<close>

record config =
  MIN_DIST_PX :: real
  MAX_DIST_PX :: real

definition default_config :: config where
  "default_config = \<lparr>MIN_DIST_PX = 20, MAX_DIST_PX = 400\<rparr>"

section \<open>Normalizer\<close>

text \<open>
  \<^verbatim>\<open>
  def normalize_to_cc(dist_px, min_d=MIN_DIST_PX, max_d=MAX_DIST_PX) -> int:
      d = max(min_d, min(max_d, dist_px))  # clamp
      norm = (d - min_d) / (max_d - min_d)
      return int(norm * 127)
  \<close>
\<close>

definition normalize_to_cc :: "real \<Rightarrow> real \<Rightarrow> real \<Rightarrow> py_error + int" where
  "normalize_to_cc dist_px min_d max_d =
     (let d = max min_d (min max_d dist_px)
      in case py_truediv (d - min_d) (max_d - min_d) of
           Inl e \<Rightarrow> Inl e
         | Inr norm_v \<Rightarrow> Inr (py_int (norm_v * 127)))"

text \<open>The Normalizer as the specification words it: clamp, scale, floor.\<close>

definition clamp_spec :: "real \<Rightarrow> real \<Rightarrow> real \<Rightarrow> real" where
  "clamp_spec d minPx maxPx = (if d < minPx then minPx else if maxPx < d then maxPx else d)"

definition toCC_spec :: "real \<Rightarrow> real \<Rightarrow> real \<Rightarrow> int" where
  "toCC_spec d minPx maxPx = \<lfloor>(clamp_spec d minPx maxPx - minPx) / (maxPx - minPx) * 127\<rfloor>"

section \<open>MidiSink: the Control Change message\<close>

text \<open>
  The opened \<^verbatim>\<open>rtmidi.MidiOut\<close> port is the list of the messages sent through it, in
  order. \<^verbatim>\<open>send_cc\<close> appends one three-byte message.
  \<^verbatim>\<open>
  status = 0xB0 | (channel & 0x0F)
  value = max(0, min(127, int(value)))
  msg = [status, cc_number & 0x7F, value]
  midi_out.send_message(msg)
  \<close>
\<close>

type_synonym midi_msg = "int list"

definition send_cc :: "midi_msg list \<Rightarrow> int \<Rightarrow> int \<Rightarrow> int \<Rightarrow> midi_msg list" where
  "send_cc port cc_number val channel =
     (let status = 176 OR (channel AND 15);
          v = max 0 (min 127 val);
          msg = [status, cc_number AND 127, v]
      in port @ [msg])"

section \<open>GeometryEngine and DisplayOverlay: \<^verbatim>\<open>draw_line_info\<close>\<close>

type_synonym point = "int \<times> int"
type_synonym color = "int \<times> int \<times> int"
type_synonym landmark = "real \<times> real"

text \<open>
  The image is the list of the drawing calls made on it. The text that
  \<^verbatim>\<open>draw_line_info\<close> writes is kept as its parts: the label, the number shown after
  \<^verbatim>\<open>d=\<close> and the angle shown after \<^verbatim>\<open>a=\<close>.
\<close>

datatype draw_op =
    Line point point color int
  | PutText string int real point color
  | Circle point int color int
  | Skeleton "landmark list"

text \<open>
  The two mutable objects that \<^verbatim>\<open>draw_line_info\<close> is handed: the frame and the
  MIDI port. The argument \<^verbatim>\<open>midi_out\<close> is a reference to the port or \<^verbatim>\<open>None\<close>.
\<close>

record world =
  frame :: "draw_op list"
  midi :: "midi_msg list"

datatype port_ref = Port

text \<open>
  \<^verbatim>\<open>math.atan2(y, x)\<close> and \<^verbatim>\<open>math.degrees\<close> of the Python library, on exact
  reals: the angle of the vector \<open>(x, y)\<close> in \<open>(-\<pi>, \<pi>]\<close>, and \<open>0\<close> at the origin.
\<close>

definition py_atan2 :: "real \<Rightarrow> real \<Rightarrow> real" where
  "py_atan2 y x =
     (if 0 < x then arctan (y / x)
      else if x < 0 then (if 0 \<le> y then arctan (y / x) + pi else arctan (y / x) - pi)
      else if 0 < y then pi / 2
      else if y < 0 then - (pi / 2)
      else 0)"

definition py_degrees :: "real \<Rightarrow> real" where
  "py_degrees r = r * (180 / pi)"

definition then_do :: "py_error + 'a \<Rightarrow> ('a \<Rightarrow> py_error + 'b) \<Rightarrow> py_error + 'b" where
  "then_do m f = (case m of Inl e \<Rightarrow> Inl e | Inr v \<Rightarrow> f v)"

definition draw_line_info ::
  "config \<Rightarrow> world \<Rightarrow> point option \<Rightarrow> point option \<Rightarrow> string \<Rightarrow> color \<Rightarrow>
   port_ref option \<Rightarrow> int option \<Rightarrow> py_error + (world \<times> (real \<times> real) option)" where
  "draw_line_info cfg w p1 p2 label_text col midi_out cc_number =
     (case (p1, p2) of
        (None, _) \<Rightarrow> Inr (w, None)
      | (_, None) \<Rightarrow> Inr (w, None)
      | (Some (x1, y1), Some (x2, y2)) \<Rightarrow>
          (let dist = sqrt (real_of_int ((x2 - x1) ^ 2 + (y2 - y1) ^ 2));
               angle = py_degrees (py_atan2 (real_of_int (y2 - y1)) (real_of_int (x2 - x1)));
               w1 = w\<lparr>frame := frame w @ [Line (x1, y1) (x2, y2) col 2]\<rparr>;
               mid_x = py_int (real_of_int (x1 + x2) / 2);
               mid_y = py_int (real_of_int (y1 + y2) / 2) - 10
           in then_do (normalize_to_cc dist (MIN_DIST_PX cfg) (MAX_DIST_PX cfg)) (\<lambda>shown_d.
                (let w2 = w1\<lparr>frame := frame w1 @ [PutText label_text shown_d angle (mid_x, mid_y) col]\<rparr>
                 in case (cc_number, midi_out) of
                      (Some cc, Some Port) \<Rightarrow>
                        then_do (normalize_to_cc dist (MIN_DIST_PX cfg) (MAX_DIST_PX cfg)) (\<lambda>cc_val.
                          Inr (w2\<lparr>midi := send_cc (midi w2) cc cc_val MIDI_CHANNEL\<rparr>,
                               Some (dist, angle)))
                    | _ \<Rightarrow> Inr (w2, Some (dist, angle))))))"

section \<open>FeatureExtractor: the loop over the detected hands\<close>

text \<open>
  One detected hand is its landmark list and the labels of its
  \<^verbatim>\<open>handedness.classification\<close> entries. \<^verbatim>\<open>coords\<close> is the dictionary with the keys
  \<^verbatim>\<open>"Left"\<close> and \<^verbatim>\<open>"Right"\<close>; its values are the inner dictionaries with the
  fixed keys \<^verbatim>\<open>"thumb"\<close> and \<^verbatim>\<open>"index"\<close>.
\<close>

record fingertips =
  thumb :: "point option"
  index :: "point option"

type_synonym coords = "string \<rightharpoonup> fingertips"

definition py_index :: "'a list \<Rightarrow> nat \<Rightarrow> py_error + 'a" where
  "py_index xs i = (if i < length xs then Inr (xs ! i) else Inl IndexError)"

definition py_getitem :: "('k \<rightharpoonup> 'v) \<Rightarrow> 'k \<Rightarrow> py_error + 'v" where
  "py_getitem d k = (case d k of None \<Rightarrow> Inl KeyError | Some v \<Rightarrow> Inr v)"

text \<open>
  The body of the \<^verbatim>\<open>for hand_landmarks, handedness in zip(...)\<close> loop of \<^verbatim>\<open>run\<close>,
  for a frame of width \<open>w\<close> and height \<open>h\<close>.
\<close>

definition run_extract_hand ::
  "int \<Rightarrow> int \<Rightarrow> world \<times> coords \<Rightarrow> landmark list \<times> string list \<Rightarrow>
   py_error + (world \<times> coords)" where
  "run_extract_hand w h st hand =
     (case st of (wd, coords) \<Rightarrow> case hand of (hand_landmarks, handedness) \<Rightarrow>
        then_do (py_index handedness 0) (\<lambda>label.
        then_do (py_index hand_landmarks 4) (\<lambda>thumb_tip.
        then_do (py_index hand_landmarks 8) (\<lambda>index_tip.
          (let t_x = py_int (fst thumb_tip * real_of_int w);
               t_y = py_int (snd thumb_tip * real_of_int h);
               i_x = py_int (fst index_tip * real_of_int w);
               i_y = py_int (snd index_tip * real_of_int h)
           in then_do (py_getitem coords label) (\<lambda>entry.
                (let coords1 = coords(label \<mapsto> entry\<lparr>thumb := Some (t_x, t_y)\<rparr>)
                 in then_do (py_getitem coords1 label) (\<lambda>entry1.
                      (let coords2 = coords1(label \<mapsto> entry1\<lparr>index := Some (i_x, i_y)\<rparr>);
                           wd1 = wd\<lparr>frame := frame wd @
                                   [Circle (t_x, t_y) 8 (0, 255, 0) (- 1),
                                    Circle (i_x, i_y) 8 (0, 0, 255) (- 1),
                                    Line (t_x, t_y) (i_x, i_y) (255, 0, 0) 2,
                                    Skeleton hand_landmarks]\<rparr>
                       in Inr (wd1, coords2))))))))))"

fun run_extract ::
  "int \<Rightarrow> int \<Rightarrow> world \<times> coords \<Rightarrow> (landmark list \<times> string list) list \<Rightarrow>
   py_error + (world \<times> coords)" where
  "run_extract w h st [] = Inr st"
| "run_extract w h st (hand # hands) =
     (case run_extract_hand w h st hand of
        Inl e \<Rightarrow> Inl e
      | Inr st1 \<Rightarrow> run_extract w h st1 hands)"

section \<open>RateLimiter\<close>

text \<open>
  \<^verbatim>\<open>
  last_send: float = 0.0
  send_interval: float = 1 / 30.0
  ...
  send_midi_now = (now - last_send) > send_interval
  \<close>
\<close>

definition send_interval :: real where
  "send_interval = 1 / 30"

definition initial_last_send :: real where
  "initial_last_send = 0"

definition send_midi_now :: "real \<Rightarrow> real \<Rightarrow> bool" where
  "send_midi_now now last_send = (now - last_send > send_interval)"

text \<open>
  The rate gate alone: the decisions of successive frames read at the times \<open>ts\<close>,
  with \<^verbatim>\<open>last_send = now\<close> after each frame that sends.
\<close>

fun gate_decisions :: "real \<Rightarrow> real list \<Rightarrow> bool list" where
  "gate_decisions last_send [] = []"
| "gate_decisions last_send (now # ts) =
     (if send_midi_now now last_send then True # gate_decisions now ts
      else False # gate_decisions last_send ts)"

section \<open>The per-frame driver\<close>

text \<open>The four \<^verbatim>\<open>draw_line_info\<close> calls of one frame, in either branch of \<^verbatim>\<open>if send_midi_now\<close>.\<close>

definition run_draw_lines ::
  "config \<Rightarrow> world \<Rightarrow> bool \<Rightarrow> point option \<Rightarrow> point option \<Rightarrow> point option \<Rightarrow> point option \<Rightarrow>
   py_error + world" where
  "run_draw_lines cfg w0 send_now left_thumb left_index right_thumb right_index =
     (if send_now then
        then_do (draw_line_info cfg w0 left_thumb left_index ''L T-I'' (255, 0, 0)
                   (Some Port) (Some CC_LEFT_HAND)) (\<lambda>(w1, _).
        then_do (draw_line_info cfg w1 right_thumb right_index ''R T-I'' (255, 0, 0)
                   (Some Port) (Some CC_RIGHT_HAND)) (\<lambda>(w2, _).
        then_do (draw_line_info cfg w2 left_thumb right_thumb ''T-T'' (0, 255, 255)
                   (Some Port) (Some CC_THUMB_TO_THUMB)) (\<lambda>(w3, _).
        then_do (draw_line_info cfg w3 left_index right_index ''I-I'' (255, 255, 0)
                   (Some Port) (Some CC_INDEX_TO_INDEX)) (\<lambda>(w4, _).
          Inr w4))))
      else
        then_do (draw_line_info cfg w0 left_thumb left_index ''L T-I'' (255, 0, 0) None None) (\<lambda>(w1, _).
        then_do (draw_line_info cfg w1 right_thumb right_index ''R T-I'' (255, 0, 0) None None) (\<lambda>(w2, _).
        then_do (draw_line_info cfg w2 left_thumb right_thumb ''T-T'' (0, 255, 255) None None) (\<lambda>(w3, _).
        then_do (draw_line_info cfg w3 left_index right_index ''I-I'' (255, 255, 0) None None) (\<lambda>(w4, _).
          Inr w4)))))"

text \<open>
  What one iteration of \<^verbatim>\<open>while True\<close> reads from outside: whether \<^verbatim>\<open>cap.read()\<close>
  gave a frame, the frame's height and width, the detector's results on the mirrored
  frame, the clock and the key returned by \<^verbatim>\<open>cv2.waitKey\<close>.
\<close>

record frame_input =
  ret :: bool
  shape :: "int \<times> int"
  multi_hand_landmarks :: "landmark list list option"
  multi_handedness :: "string list list option"
  now_time :: real
  key :: int

text \<open>What the loop carries from frame to frame, and the frames it has shown.\<close>

record run_state =
  last_send :: real
  midi_port :: "midi_msg list"
  shown :: "draw_op list list"

definition fresh_coords :: coords where
  "fresh_coords = [''Left'' \<mapsto> \<lparr>thumb = None, index = None\<rparr>,
                   ''Right'' \<mapsto> \<lparr>thumb = None, index = None\<rparr>]"

text \<open>
  The first half of one iteration: \<^verbatim>\<open>coords\<close> is created afresh and the detected
  hands are written into it. The hands are visited only when both result lists are
  truthy, that is neither \<^verbatim>\<open>None\<close> nor empty; \<^verbatim>\<open>zip\<close> stops at the shorter list.
\<close>

definition run_coords :: "world \<Rightarrow> frame_input \<Rightarrow> py_error + (world \<times> coords)" where
  "run_coords wd0 inp =
     (case shape inp of (h, w) \<Rightarrow>
        (case (multi_hand_landmarks inp, multi_handedness inp) of
           (Some (l # ls), Some (c # cs)) \<Rightarrow>
             run_extract w h (wd0, fresh_coords) (zip (l # ls) (c # cs))
         | _ \<Rightarrow> Inr (wd0, fresh_coords)))"

text \<open>
  One iteration after a successful read, up to and including \<^verbatim>\<open>cv2.imshow\<close>. The
  result is the new loop state.
\<close>

definition run_frame :: "config \<Rightarrow> run_state \<Rightarrow> frame_input \<Rightarrow> py_error + run_state" where
  "run_frame cfg st inp =
     then_do (run_coords \<lparr>frame = [], midi = midi_port st\<rparr> inp) (\<lambda>(wd1, coords).
       (let now = now_time inp;
            send_now = send_midi_now now (last_send st)
        in then_do (py_getitem coords ''Left'') (\<lambda>left.
           then_do (py_getitem coords ''Right'') (\<lambda>right.
           then_do (run_draw_lines cfg wd1 send_now
                      (thumb left) (index left) (thumb right) (index right)) (\<lambda>wd2.
             Inr \<lparr>last_send = (if send_now then now else last_send st),
                  midi_port = midi wd2,
                  shown = shown st @ [frame wd2]\<rparr>)))))"

text \<open>
  The loop of \<^verbatim>\<open>run\<close> over the inputs of its iterations. It ends when the camera
  gives no frame (also when the inputs are used up) or when the key is \<^verbatim>\<open>q\<close>; an
  exception of the body leaves the loop.
\<close>

fun run_loop :: "config \<Rightarrow> run_state \<Rightarrow> frame_input list \<Rightarrow> py_error + run_state" where
  "run_loop cfg st [] = Inr st"
| "run_loop cfg st (inp # inps) =
     (if \<not> ret inp then Inr st
      else case run_frame cfg st inp of
             Inl e \<Rightarrow> Inl e
           | Inr st1 \<Rightarrow> if key inp AND 255 = 113 then Inr st1 else run_loop cfg st1 inps)"

text \<open>
  \<^verbatim>\<open>run\<close>: the port is opened, nothing has been sent, \<^verbatim>\<open>last_send = 0.0\<close>, and the
  loop starts. Nothing between the start of \<^verbatim>\<open>run\<close> and the loop reads the distance
  range.
\<close>

definition initial_state :: run_state where
  "initial_state = \<lparr>last_send = initial_last_send, midi_port = [], shown = []\<rparr>"

definition run :: "config \<Rightarrow> frame_input list \<Rightarrow> py_error + run_state" where
  "run cfg inps = run_loop cfg initial_state inps"

section \<open>Predicates on the inputs and on \<^verbatim>\<open>coords\<close>\<close>

text \<open>
  A detected hand as the detector is documented to deliver it: at least the landmarks
  0 to 8, and a first classification labelled \<^verbatim>\<open>"Left"\<close> or \<^verbatim>\<open>"Right"\<close>.
\<close>

definition well_formed_hand :: "landmark list \<times> string list \<Rightarrow> bool" where
  "well_formed_hand hand =
     (8 < length (fst hand) \<and>
      (case snd hand of [] \<Rightarrow> False | s # _ \<Rightarrow> s = ''Left'' \<or> s = ''Right''))"

text \<open>The label the loop reads from a hand: \<^verbatim>\<open>handedness.classification[0].label\<close>.\<close>

definition hand_label :: "landmark list \<times> string list \<Rightarrow> string option" where
  "hand_label hand = (case snd hand of [] \<Rightarrow> None | s # _ \<Rightarrow> Some s)"

text \<open>
  Both keys are present in \<^verbatim>\<open>coords\<close>, and under each key the thumb and the index
  are both set or both \<^verbatim>\<open>None\<close>.
\<close>

definition coords_inv :: "coords \<Rightarrow> bool" where
  "coords_inv c = (\<exists>l r. c ''Left'' = Some l \<and> c ''Right'' = Some r
                     \<and> (thumb l = None \<longleftrightarrow> index l = None)
                     \<and> (thumb r = None \<longleftrightarrow> index r = None))"

section \<open>Properties of the Normalizer\<close>

lemma normalize_to_cc_value:
  assumes "min_d < max_d"
  shows "normalize_to_cc d min_d max_d =
           Inr \<lfloor>(max min_d (min max_d d) - min_d) / (max_d - min_d) * 127\<rfloor>"
proof -
  have "0 \<le> (max min_d (min max_d d) - min_d) / (max_d - min_d) * 127"
    using assms by simp
  then show ?thesis
    using assms by (simp add: normalize_to_cc_def py_truediv_def py_int_def Let_def)
qed

lemma clamp_spec_eq:
  assumes "min_d < max_d"
  shows "clamp_spec d min_d max_d = max min_d (min max_d d)"
  using assms by (simp add: clamp_spec_def max_def min_def)

lemma normalize_to_cc_total:
  assumes "min_d \<noteq> max_d"
  shows "\<exists>v. normalize_to_cc d min_d max_d = Inr v"
  using assms by (simp add: normalize_to_cc_def py_truediv_def Let_def)

lemma normalize_to_cc_degenerate:
  "normalize_to_cc d m m = Inl ZeroDivisionError"
  by (simp add: normalize_to_cc_def py_truediv_def Let_def)

lemma normalize_to_cc_inverted:
  assumes "max_d < min_d"
  shows "normalize_to_cc d min_d max_d = Inr 0"
  using assms by (simp add: normalize_to_cc_def py_truediv_def Let_def py_int_def max_def min_def)

section \<open>Properties of \<^verbatim>\<open>send_cc\<close>, of the angle and of one \<^verbatim>\<open>draw_line_info\<close> call\<close>

lemma send_cc_msg:
  assumes "0 \<le> v" "v \<le> 127"
  shows "send_cc port cc v MIDI_CHANNEL = port @ [[176, cc AND 127, v]]"
  using assms by (simp add: send_cc_def MIDI_CHANNEL_def Let_def)

lemma draw_line_info_absent:
  assumes "p1 = None \<or> p2 = None"
  shows "draw_line_info cfg w p1 p2 lbl col m cc = Inr (w, None)"
  using assms by (auto simp: draw_line_info_def split: option.splits)

lemma py_atan2_range: "- pi < py_atan2 y x \<and> py_atan2 y x \<le> pi"
proof -
  have l: "- (pi / 2) < arctan (y / x)" by (rule arctan_lbound)
  have u: "arctan (y / x) < pi / 2" by (rule arctan_ubound)
  have p: "0 < pi" by simp
  consider "0 < x" | "x < 0" "0 \<le> y" | "x < 0" "y < 0" | "x = 0" "0 < y" | "x = 0" "y < 0"
    | "x = 0" "y = 0" by linarith
  then show ?thesis
  proof cases
    case 1
    then have "py_atan2 y x = arctan (y / x)" by (simp add: py_atan2_def)
    then show ?thesis using l u p by linarith
  next
    case 2
    then have "y / x \<le> 0" by (simp add: divide_nonneg_neg)
    then have "arctan (y / x) \<le> 0" by (simp add: arctan_le_zero_iff)
    moreover have "py_atan2 y x = arctan (y / x) + pi" using 2 by (simp add: py_atan2_def)
    ultimately show ?thesis using l p by linarith
  next
    case 3
    then have "0 < y / x" by (simp add: divide_neg_neg)
    then have "0 < arctan (y / x)" by (simp add: zero_less_arctan_iff)
    moreover have "py_atan2 y x = arctan (y / x) - pi" using 3 by (simp add: py_atan2_def)
    ultimately show ?thesis using u p by linarith
  next
    case 4
    then have "py_atan2 y x = pi / 2" by (simp add: py_atan2_def)
    then show ?thesis using p by linarith
  next
    case 5
    then have "py_atan2 y x = - (pi / 2)" by (simp add: py_atan2_def)
    then show ?thesis using p by linarith
  next
    case 6
    then have "py_atan2 y x = 0" by (simp add: py_atan2_def)
    then show ?thesis using p by linarith
  qed
qed

lemma py_degrees_range:
  assumes "- pi < r" "r \<le> pi"
  shows "- 180 < py_degrees r \<and> py_degrees r \<le> 180"
proof -
  define t where "t = r / pi"
  have p: "0 < pi" by simp
  have e: "py_degrees r = t * 180" by (simp add: py_degrees_def t_def)
  have a: "- 1 < t" unfolding t_def using assms p by (simp add: pos_less_divide_eq)
  have b: "t \<le> 1" unfolding t_def using assms p by (simp add: pos_divide_le_eq)
  show ?thesis unfolding e using a b by simp
qed

lemma py_atan2_origin: "py_atan2 0 0 = 0"
  by (simp add: py_atan2_def)

lemma py_degrees_zero: "py_degrees 0 = 0"
  by (simp add: py_degrees_def)

lemma draw_line_info_present:
  assumes "normalize_to_cc (sqrt (real_of_int ((x2 - x1) ^ 2 + (y2 - y1) ^ 2))) (MIN_DIST_PX cfg) (MAX_DIST_PX cfg) = Inr v"
  shows "draw_line_info cfg w (Some (x1, y1)) (Some (x2, y2)) lbl col m cc =
     Inr (w\<lparr>frame := frame w @
              [Line (x1, y1) (x2, y2) col 2,
               PutText lbl v (py_degrees (py_atan2 (real_of_int (y2 - y1)) (real_of_int (x2 - x1))))
                 (py_int (real_of_int (x1 + x2) / 2), py_int (real_of_int (y1 + y2) / 2) - 10) col],
            midi := (case (cc, m) of
                       (Some c, Some Port) \<Rightarrow> send_cc (midi w) c v MIDI_CHANNEL
                     | _ \<Rightarrow> midi w)\<rparr>,
          Some (sqrt (real_of_int ((x2 - x1) ^ 2 + (y2 - y1) ^ 2)),
                py_degrees (py_atan2 (real_of_int (y2 - y1)) (real_of_int (x2 - x1)))))"
  using assms
  by (simp add: draw_line_info_def then_do_def Let_def split: option.splits port_ref.splits)

section \<open>Properties of \<^verbatim>\<open>draw_line_info\<close> and of the four calls of a frame\<close>

lemma world_update_frame:
  fixes w :: world
  shows "w\<lparr>frame := f\<rparr> = \<lparr>frame = f, midi = midi w\<rparr>"
  by (cases w) simp

lemma world_update_frame_midi:
  fixes w :: world
  shows "w\<lparr>frame := f, midi := g\<rparr> = \<lparr>frame = f, midi = g\<rparr>"
  by (cases w) simp

lemma draw_line_info_effect:
  assumes "MIN_DIST_PX cfg \<noteq> MAX_DIST_PX cfg"
  shows "\<exists>v ang pos r. draw_line_info cfg w p1 p2 lbl col m cc =
           Inr (\<lparr>frame = frame w @
                   (if p1 \<noteq> None \<and> p2 \<noteq> None
                    then [Line (the p1) (the p2) col 2, PutText lbl v ang pos col] else []),
                  midi = midi w @
                   (if p1 \<noteq> None \<and> p2 \<noteq> None \<and> cc \<noteq> None \<and> m \<noteq> None
                    then [[176, the cc AND 127, max 0 (min 127 v)]] else [])\<rparr>, r)"
proof (cases "p1 = None \<or> p2 = None")
  case True
  then show ?thesis by (auto simp: draw_line_info_absent)
next
  case False
  then obtain x1 y1 x2 y2 where p: "p1 = Some (x1, y1)" "p2 = Some (x2, y2)" by auto
  obtain v where v: "normalize_to_cc (sqrt (real_of_int ((x2 - x1) ^ 2 + (y2 - y1) ^ 2)))
                      (MIN_DIST_PX cfg) (MAX_DIST_PX cfg) = Inr v"
    using normalize_to_cc_total [OF assms] by blast
  show ?thesis
    unfolding p draw_line_info_present [OF v]
    by (cases cc; cases m)
       (auto simp: send_cc_def MIDI_CHANNEL_def Let_def world_update_frame
          world_update_frame_midi split: port_ref.splits)
qed

lemma run_draw_lines_effect:
  assumes "MIN_DIST_PX cfg \<noteq> MAX_DIST_PX cfg"
  shows "\<exists>v1 a1 q1 v2 a2 q2 v3 a3 q3 v4 a4 q4.
     run_draw_lines cfg w0 send_now lt li rt ri =
       Inr \<lparr>frame = frame w0
               @ (if lt \<noteq> None \<and> li \<noteq> None
                  then [Line (the lt) (the li) (255, 0, 0) 2, PutText ''L T-I'' v1 a1 q1 (255, 0, 0)] else [])
               @ (if rt \<noteq> None \<and> ri \<noteq> None
                  then [Line (the rt) (the ri) (255, 0, 0) 2, PutText ''R T-I'' v2 a2 q2 (255, 0, 0)] else [])
               @ (if lt \<noteq> None \<and> rt \<noteq> None
                  then [Line (the lt) (the rt) (0, 255, 255) 2, PutText ''T-T'' v3 a3 q3 (0, 255, 255)] else [])
               @ (if li \<noteq> None \<and> ri \<noteq> None
                  then [Line (the li) (the ri) (255, 255, 0) 2, PutText ''I-I'' v4 a4 q4 (255, 255, 0)] else []),
            midi = midi w0
               @ (if send_now \<and> lt \<noteq> None \<and> li \<noteq> None then [[176, 20, max 0 (min 127 v1)]] else [])
               @ (if send_now \<and> rt \<noteq> None \<and> ri \<noteq> None then [[176, 21, max 0 (min 127 v2)]] else [])
               @ (if send_now \<and> lt \<noteq> None \<and> rt \<noteq> None then [[176, 22, max 0 (min 127 v3)]] else [])
               @ (if send_now \<and> li \<noteq> None \<and> ri \<noteq> None then [[176, 23, max 0 (min 127 v4)]] else [])\<rparr>"
proof -
  define m where "m = (if send_now then Some Port else None)"
  define c1 where "c1 = (if send_now then Some CC_LEFT_HAND else None)"
  define c2 where "c2 = (if send_now then Some CC_RIGHT_HAND else None)"
  define c3 where "c3 = (if send_now then Some CC_THUMB_TO_THUMB else None)"
  define c4 where "c4 = (if send_now then Some CC_INDEX_TO_INDEX else None)"
  have unfold: "run_draw_lines cfg w0 send_now lt li rt ri =
        then_do (draw_line_info cfg w0 lt li ''L T-I'' (255, 0, 0) m c1) (\<lambda>(w1, _).
        then_do (draw_line_info cfg w1 rt ri ''R T-I'' (255, 0, 0) m c2) (\<lambda>(w2, _).
        then_do (draw_line_info cfg w2 lt rt ''T-T'' (0, 255, 255) m c3) (\<lambda>(w3, _).
        then_do (draw_line_info cfg w3 li ri ''I-I'' (255, 255, 0) m c4) (\<lambda>(w4, _).
          Inr w4))))"
    by (simp add: run_draw_lines_def m_def c1_def c2_def c3_def c4_def)
  obtain v1 a1 q1 r1 w1 where s1: "draw_line_info cfg w0 lt li ''L T-I'' (255, 0, 0) m c1 = Inr (w1, r1)"
    and w1: "w1 = \<lparr>frame = frame w0 @
                   (if lt \<noteq> None \<and> li \<noteq> None
                    then [Line (the lt) (the li) (255, 0, 0) 2, PutText ''L T-I'' v1 a1 q1 (255, 0, 0)] else []),
                  midi = midi w0 @
                   (if lt \<noteq> None \<and> li \<noteq> None \<and> c1 \<noteq> None \<and> m \<noteq> None
                    then [[176, the c1 AND 127, max 0 (min 127 v1)]] else [])\<rparr>"
    using draw_line_info_effect [OF assms, of w0 lt li "''L T-I''" "(255, 0, 0)" m c1] by blast
  obtain v2 a2 q2 r2 w2 where s2: "draw_line_info cfg w1 rt ri ''R T-I'' (255, 0, 0) m c2 = Inr (w2, r2)"
    and w2: "w2 = \<lparr>frame = frame w1 @
                   (if rt \<noteq> None \<and> ri \<noteq> None
                    then [Line (the rt) (the ri) (255, 0, 0) 2, PutText ''R T-I'' v2 a2 q2 (255, 0, 0)] else []),
                  midi = midi w1 @
                   (if rt \<noteq> None \<and> ri \<noteq> None \<and> c2 \<noteq> None \<and> m \<noteq> None
                    then [[176, the c2 AND 127, max 0 (min 127 v2)]] else [])\<rparr>"
    using draw_line_info_effect [OF assms, of w1 rt ri "''R T-I''" "(255, 0, 0)" m c2] by blast
  obtain v3 a3 q3 r3 w3 where s3: "draw_line_info cfg w2 lt rt ''T-T'' (0, 255, 255) m c3 = Inr (w3, r3)"
    and w3: "w3 = \<lparr>frame = frame w2 @
                   (if lt \<noteq> None \<and> rt \<noteq> None
                    then [Line (the lt) (the rt) (0, 255, 255) 2, PutText ''T-T'' v3 a3 q3 (0, 255, 255)] else []),
                  midi = midi w2 @
                   (if lt \<noteq> None \<and> rt \<noteq> None \<and> c3 \<noteq> None \<and> m \<noteq> None
                    then [[176, the c3 AND 127, max 0 (min 127 v3)]] else [])\<rparr>"
    using draw_line_info_effect [OF assms, of w2 lt rt "''T-T''" "(0, 255, 255)" m c3] by blast
  obtain v4 a4 q4 r4 w4 where s4: "draw_line_info cfg w3 li ri ''I-I'' (255, 255, 0) m c4 = Inr (w4, r4)"
    and w4: "w4 = \<lparr>frame = frame w3 @
                   (if li \<noteq> None \<and> ri \<noteq> None
                    then [Line (the li) (the ri) (255, 255, 0) 2, PutText ''I-I'' v4 a4 q4 (255, 255, 0)] else []),
                  midi = midi w3 @
                   (if li \<noteq> None \<and> ri \<noteq> None \<and> c4 \<noteq> None \<and> m \<noteq> None
                    then [[176, the c4 AND 127, max 0 (min 127 v4)]] else [])\<rparr>"
    using draw_line_info_effect [OF assms, of w3 li ri "''I-I''" "(255, 255, 0)" m c4] by blast
  have res: "run_draw_lines cfg w0 send_now lt li rt ri = Inr w4"
    unfolding unfold by (simp add: s1 s2 s3 s4 then_do_def)
  have fr: "frame w4 = frame w0
               @ (if lt \<noteq> None \<and> li \<noteq> None
                  then [Line (the lt) (the li) (255, 0, 0) 2, PutText ''L T-I'' v1 a1 q1 (255, 0, 0)] else [])
               @ (if rt \<noteq> None \<and> ri \<noteq> None
                  then [Line (the rt) (the ri) (255, 0, 0) 2, PutText ''R T-I'' v2 a2 q2 (255, 0, 0)] else [])
               @ (if lt \<noteq> None \<and> rt \<noteq> None
                  then [Line (the lt) (the rt) (0, 255, 255) 2, PutText ''T-T'' v3 a3 q3 (0, 255, 255)] else [])
               @ (if li \<noteq> None \<and> ri \<noteq> None
                  then [Line (the li) (the ri) (255, 255, 0) 2, PutText ''I-I'' v4 a4 q4 (255, 255, 0)] else [])"
    by (simp add: w4 w3 w2 w1)
  have k: "20 AND 127 = (20::int)" "21 AND 127 = (21::int)" "22 AND 127 = (22::int)"
    "23 AND 127 = (23::int)" by simp_all
  have mi: "midi w4 = midi w0
               @ (if send_now \<and> lt \<noteq> None \<and> li \<noteq> None then [[176, 20, max 0 (min 127 v1)]] else [])
               @ (if send_now \<and> rt \<noteq> None \<and> ri \<noteq> None then [[176, 21, max 0 (min 127 v2)]] else [])
               @ (if send_now \<and> lt \<noteq> None \<and> rt \<noteq> None then [[176, 22, max 0 (min 127 v3)]] else [])
               @ (if send_now \<and> li \<noteq> None \<and> ri \<noteq> None then [[176, 23, max 0 (min 127 v4)]] else [])"
    by (simp add: w4 w3 w2 w1 m_def c1_def c2_def c3_def c4_def k
          CC_LEFT_HAND_def CC_RIGHT_HAND_def CC_THUMB_TO_THUMB_def CC_INDEX_TO_INDEX_def)
  have "w4 = \<lparr>frame = frame w4, midi = midi w4\<rparr>" by simp
  then show ?thesis unfolding res fr mi by blast
qed

section \<open>Properties of the loop over the hands\<close>

lemma fingertips_overwrite:
  fixes e :: fingertips
  shows "e\<lparr>thumb := a, index := b\<rparr> = \<lparr>thumb = a, index = b\<rparr>"
  by (cases e) simp

lemma run_extract_hand_step:
  assumes "8 < length lms" and "coords s = Some e"
  shows "run_extract_hand w h (wd, coords) (lms, s # rest) =
           Inr (wd\<lparr>frame := frame wd @
                  [Circle (py_int (fst (lms ! 4) * real_of_int w), py_int (snd (lms ! 4) * real_of_int h))
                     8 (0, 255, 0) (- 1),
                   Circle (py_int (fst (lms ! 8) * real_of_int w), py_int (snd (lms ! 8) * real_of_int h))
                     8 (0, 0, 255) (- 1),
                   Line (py_int (fst (lms ! 4) * real_of_int w), py_int (snd (lms ! 4) * real_of_int h))
                        (py_int (fst (lms ! 8) * real_of_int w), py_int (snd (lms ! 8) * real_of_int h))
                        (255, 0, 0) 2,
                   Skeleton lms]\<rparr>,
                coords(s \<mapsto> \<lparr>thumb = Some (py_int (fst (lms ! 4) * real_of_int w),
                                              py_int (snd (lms ! 4) * real_of_int h)),
                               index = Some (py_int (fst (lms ! 8) * real_of_int w),
                                              py_int (snd (lms ! 8) * real_of_int h))\<rparr>))"
  using assms
  by (simp add: run_extract_hand_def py_index_def py_getitem_def then_do_def Let_def
        fingertips_overwrite)

lemma run_extract_hand_cases:
  assumes "run_extract_hand w h (wd, coords) (lms, cls) = Inr res"
  shows "\<exists>s rest e. cls = s # rest \<and> 8 < length lms \<and> coords s = Some e"
  using assms
  by (cases cls)
     (auto simp: run_extract_hand_def py_index_def py_getitem_def then_do_def Let_def
           split: if_splits option.splits)

lemma run_extract_hand_result:
  assumes "run_extract_hand w h (wd, coords) hand = Inr (wd', coords')"
  shows "\<exists>s tp ip. hand_label hand = Some s \<and> s \<in> dom coords
           \<and> coords' = coords(s \<mapsto> \<lparr>thumb = Some tp, index = Some ip\<rparr>)
           \<and> midi wd' = midi wd"
proof -
  obtain lms cls where hand: "hand = (lms, cls)" by (cases hand)
  from assms obtain s rest e where cls: "cls = s # rest" and len: "8 < length lms"
    and e: "coords s = Some e"
    unfolding hand using run_extract_hand_cases by blast
  from assms have "coords' = coords(s \<mapsto>
       \<lparr>thumb = Some (py_int (fst (lms ! 4) * real_of_int w), py_int (snd (lms ! 4) * real_of_int h)),
        index = Some (py_int (fst (lms ! 8) * real_of_int w), py_int (snd (lms ! 8) * real_of_int h))\<rparr>)"
    and "midi wd' = midi wd"
    unfolding hand cls by (auto simp: run_extract_hand_step [where coords = coords and s = s, OF len e])
  moreover have "hand_label hand = Some s" by (simp add: hand cls hand_label_def)
  moreover have "s \<in> dom coords" using e by blast
  ultimately show ?thesis by blast
qed

lemma coords_inv_fresh: "coords_inv fresh_coords"
  by (simp add: coords_inv_def fresh_coords_def)

lemma coords_inv_step:
  assumes "coords_inv c" and "run_extract_hand w h (wd, c) hand = Inr (wd', c')"
  shows "coords_inv c' \<and> midi wd' = midi wd"
proof -
  obtain s tp ip where c': "c' = c(s \<mapsto> \<lparr>thumb = Some tp, index = Some ip\<rparr>)"
    and m: "midi wd' = midi wd"
    using run_extract_hand_result [OF assms(2)] by blast
  show ?thesis using assms(1) m unfolding c' coords_inv_def by auto
qed

lemma coords_inv_run_extract:
  assumes "coords_inv c" and "run_extract w h (wd, c) hands = Inr (wd', c')"
  shows "coords_inv c' \<and> midi wd' = midi wd"
  using assms
proof (induction hands arbitrary: wd c)
  case Nil
  then show ?case by simp
next
  case (Cons hand hands)
  from Cons.prems(2) obtain wd1 c1 where
    step: "run_extract_hand w h (wd, c) hand = Inr (wd1, c1)"
    and rest: "run_extract w h (wd1, c1) hands = Inr (wd', c')"
    by (auto split: sum.splits)
  from coords_inv_step [OF Cons.prems(1) step] have "coords_inv c1" and "midi wd1 = midi wd"
    by simp_all
  with Cons.IH [OF _ rest] show ?case by simp
qed

lemma run_coords_inv:
  assumes "run_coords wd inp = Inr (wd', c')"
  shows "coords_inv c' \<and> midi wd' = midi wd"
proof -
  obtain h w where hw: "shape inp = (h, w)" by (cases "shape inp")
  show ?thesis
  proof (cases "\<exists>l ls c cs. multi_hand_landmarks inp = Some (l # ls)
                   \<and> multi_handedness inp = Some (c # cs)")
    case True
    then obtain l ls c cs where "multi_hand_landmarks inp = Some (l # ls)"
      "multi_handedness inp = Some (c # cs)" by blast
    with assms hw have "run_extract w h (wd, fresh_coords) (zip (l # ls) (c # cs)) = Inr (wd', c')"
      by (simp add: run_coords_def)
    from coords_inv_run_extract [OF coords_inv_fresh this] show ?thesis .
  next
    case False
    with assms hw have "wd' = wd \<and> c' = fresh_coords"
      by (auto simp: run_coords_def split: option.splits list.splits)
    then show ?thesis by (simp add: coords_inv_fresh)
  qed
qed


lemma run_extract_append:
  "run_extract w h st (xs @ ys) =
     (case run_extract w h st xs of Inl e \<Rightarrow> Inl e | Inr st1 \<Rightarrow> run_extract w h st1 ys)"
  by (induction xs arbitrary: st) (auto split: sum.splits)

lemma well_formed_hand_step:
  assumes "well_formed_hand hand" and "c ''Left'' \<noteq> None" and "c ''Right'' \<noteq> None"
  shows "\<exists>wd' s e. run_extract_hand w h (wd, c) hand = Inr (wd', c(s \<mapsto> e))
            \<and> hand_label hand = Some s \<and> (s = ''Left'' \<or> s = ''Right'')"
proof -
  obtain lms cls where hand: "hand = (lms, cls)" by (cases hand)
  from assms(1) obtain s rest where cls: "cls = s # rest" and len: "8 < length lms"
    and s: "s = ''Left'' \<or> s = ''Right''"
    unfolding hand well_formed_hand_def by (auto split: list.splits)
  from s assms(2,3) obtain e where e: "c s = Some e" by auto
  have "hand_label (lms, s # rest) = Some s" by (simp add: hand_label_def)
  with s run_extract_hand_step [where coords = c and s = s, OF len e, of w h wd rest]
  show ?thesis unfolding hand cls by blast
qed

lemma run_extract_well_formed:
  assumes "\<forall>hand \<in> set hands. well_formed_hand hand"
    and "c ''Left'' \<noteq> None" and "c ''Right'' \<noteq> None"
  shows "\<exists>wd' c'. run_extract w h (wd, c) hands = Inr (wd', c')
            \<and> c' ''Left'' \<noteq> None \<and> c' ''Right'' \<noteq> None
            \<and> (\<forall>s. (\<forall>hand \<in> set hands. hand_label hand \<noteq> Some s) \<longrightarrow> c' s = c s)"
  using assms
proof (induction hands arbitrary: wd c)
  case Nil
  then show ?case by simp
next
  case (Cons hand hands)
  from Cons.prems have wf: "well_formed_hand hand" by simp
  from well_formed_hand_step [OF wf Cons.prems(2,3)]
  obtain wd1 s e where step: "run_extract_hand w h (wd, c) hand = Inr (wd1, c(s \<mapsto> e))"
    and lbl: "hand_label hand = Some s" by blast
  have l: "(c(s \<mapsto> e)) ''Left'' \<noteq> None" and r: "(c(s \<mapsto> e)) ''Right'' \<noteq> None"
    using Cons.prems(2,3) by simp_all
  from Cons.prems(1) have rest: "\<forall>hand \<in> set hands. well_formed_hand hand" by simp
  from Cons.IH [OF rest l r, of wd1]
  obtain wd' c' where run: "run_extract w h (wd1, c(s \<mapsto> e)) hands = Inr (wd', c')"
    and l': "c' ''Left'' \<noteq> None" and r': "c' ''Right'' \<noteq> None"
    and keep: "\<forall>t. (\<forall>hand \<in> set hands. hand_label hand \<noteq> Some t) \<longrightarrow> c' t = (c(s \<mapsto> e)) t"
    by blast
  have "run_extract w h (wd, c) (hand # hands) = Inr (wd', c')"
    using step run by simp
  moreover have "\<forall>t. (\<forall>x \<in> set (hand # hands). hand_label x \<noteq> Some t) \<longrightarrow> c' t = c t"
    using keep lbl by auto
  ultimately show ?case using l' r' by blast
qed

lemma run_extract_last_wins:
  assumes wf: "\<forall>hand \<in> set (pre @ (lms, s # rest) # post). well_formed_hand hand"
    and post: "\<forall>hand \<in> set post. hand_label hand \<noteq> Some s"
    and l: "c ''Left'' \<noteq> None" and r: "c ''Right'' \<noteq> None"
  shows "\<exists>wd' c'. run_extract w h (wd, c) (pre @ (lms, s # rest) # post) = Inr (wd', c')
           \<and> c' s = Some \<lparr>thumb = Some (py_int (fst (lms ! 4) * real_of_int w),
                                          py_int (snd (lms ! 4) * real_of_int h)),
                           index = Some (py_int (fst (lms ! 8) * real_of_int w),
                                          py_int (snd (lms ! 8) * real_of_int h))\<rparr>"
proof -
  from wf have wf_pre: "\<forall>hand \<in> set pre. well_formed_hand hand"
    and wf_mid: "well_formed_hand (lms, s # rest)"
    and wf_post: "\<forall>hand \<in> set post. well_formed_hand hand" by simp_all
  from run_extract_well_formed [OF wf_pre l r, of w h wd]
  obtain wd1 c1 where pre: "run_extract w h (wd, c) pre = Inr (wd1, c1)"
    and l1: "c1 ''Left'' \<noteq> None" and r1: "c1 ''Right'' \<noteq> None" by blast
  from wf_mid have len: "8 < length lms" and s: "s = ''Left'' \<or> s = ''Right''"
    by (simp_all add: well_formed_hand_def)
  from s l1 r1 obtain e where e: "c1 s = Some e" by auto
  define c2 where "c2 = c1(s \<mapsto> \<lparr>thumb = Some (py_int (fst (lms ! 4) * real_of_int w),
                                          py_int (snd (lms ! 4) * real_of_int h)),
                           index = Some (py_int (fst (lms ! 8) * real_of_int w),
                                          py_int (snd (lms ! 8) * real_of_int h))\<rparr>)"
  obtain wd2 where mid: "run_extract_hand w h (wd1, c1) (lms, s # rest) = Inr (wd2, c2)"
    unfolding c2_def
    by (simp add: run_extract_hand_step [where coords = c1 and s = s, OF len e])
  have l2: "c2 ''Left'' \<noteq> None" and r2: "c2 ''Right'' \<noteq> None"
    using l1 r1 by (simp_all add: c2_def)
  from run_extract_well_formed [OF wf_post l2 r2, of w h wd2]
  obtain wd3 c3 where fin: "run_extract w h (wd2, c2) post = Inr (wd3, c3)"
    and keep: "\<forall>t. (\<forall>hand \<in> set post. hand_label hand \<noteq> Some t) \<longrightarrow> c3 t = c2 t" by blast
  have "run_extract w h (wd, c) (pre @ (lms, s # rest) # post) = Inr (wd3, c3)"
    using pre mid fin by (simp add: run_extract_append)
  moreover have "c3 s = c2 s" using keep post by blast
  ultimately show ?thesis by (simp add: c2_def)
qed

section \<open>Properties of a whole frame\<close>

lemma run_coords_no_hands:
  assumes "multi_hand_landmarks inp = None"
  shows "run_coords wd inp = Inr (wd, fresh_coords)"
  using assms by (simp add: run_coords_def split: prod.splits)

lemma fresh_coords_Left: "py_getitem fresh_coords ''Left'' = Inr \<lparr>thumb = None, index = None\<rparr>"
  by (simp add: py_getitem_def fresh_coords_def)

lemma fresh_coords_Right: "py_getitem fresh_coords ''Right'' = Inr \<lparr>thumb = None, index = None\<rparr>"
  by (simp add: py_getitem_def fresh_coords_def)

lemma run_draw_lines_none:
  "run_draw_lines cfg w s None None None None = Inr w"
  by (simp add: run_draw_lines_def draw_line_info_absent then_do_def)

lemma run_frame_no_hands:
  assumes "multi_hand_landmarks inp = None"
  shows "run_frame cfg st inp =
           Inr \<lparr>last_send = (if send_midi_now (now_time inp) (last_send st) then now_time inp
                              else last_send st),
                midi_port = midi_port st, shown = shown st @ [[]]\<rparr>"
  using assms
  by (simp add: run_frame_def run_coords_no_hands then_do_def fresh_coords_Left fresh_coords_Right
        run_draw_lines_none Let_def)

lemma run_frame_last_send:
  assumes "run_frame cfg st inp = Inr st'"
  shows "last_send st' = (if send_midi_now (now_time inp) (last_send st) then now_time inp
                          else last_send st)"
  using assms
  by (auto simp: run_frame_def then_do_def Let_def split: sum.splits prod.splits if_splits)

lemma sqrt_2500: "sqrt 2500 = 50"
  by (rule real_sqrt_unique) simp_all

lemma py_degrees_atan2_up: "py_degrees (py_atan2 50 0) = 90"
  by (simp add: py_degrees_def py_atan2_def)

lemma normalize_to_cc_50: "normalize_to_cc 50 20 400 = Inr 10"
  by (simp add: normalize_to_cc_def py_truediv_def py_int_def Let_def)

lemma draw_line_info_left_hand_example:
  "draw_line_info default_config w (Some (100, 100)) (Some (100, 150)) lbl col m cc =
   Inr (w\<lparr>frame := frame w @ [Line (100, 100) (100, 150) col 2, PutText lbl 10 90 (100, 115) col],
           midi := (case (cc, m) of (Some c, Some Port) \<Rightarrow> send_cc (midi w) c 10 MIDI_CHANNEL | _ \<Rightarrow> midi w)\<rparr>, Some (50, 90))"
proof -
  have "normalize_to_cc (sqrt (real_of_int ((100 - 100) ^ 2 + (150 - 100) ^ 2))) 
          (MIN_DIST_PX default_config) (MAX_DIST_PX default_config) = Inr 10"
    by (simp add: sqrt_2500 normalize_to_cc_50 default_config_def)
  from draw_line_info_present [OF this, of w lbl col m cc]
  show ?thesis by (simp add: sqrt_2500 py_degrees_atan2_up py_int_def)
qed

lemma run_coords_hands:
  assumes "multi_hand_landmarks inp = Some (map fst hands)"
    and "multi_handedness inp = Some (map snd hands)"
    and "shape inp = (h, w)"
  shows "run_coords wd inp = run_extract w h (wd, fresh_coords) hands"
proof (cases hands)
  case Nil
  with assms show ?thesis by (simp add: run_coords_def)
next
  case (Cons x xs)
  have "zip (fst x # map fst xs) (snd x # map snd xs) = x # xs"
    using zip_map_fst_snd [of "x # xs"] by simp
  with assms Cons show ?thesis by (simp add: run_coords_def del: run_extract.simps zip_Cons_Cons)
qed

lemma run_extract_hand_left_example:
  "run_extract_hand 200 200 (wd, c(''Left'' \<mapsto> e))
     ([(0, 0), (0, 0), (0, 0), (0, 0), (1 / 2, 1 / 2), (0, 0), (0, 0), (0, 0), (1 / 2, 3 / 4)],
      [''Left'']) =
   Inr (wd\<lparr>frame := frame wd @
           [Circle (100, 100) 8 (0, 255, 0) (- 1), Circle (100, 150) 8 (0, 0, 255) (- 1),
            Line (100, 100) (100, 150) (255, 0, 0) 2,
            Skeleton [(0, 0), (0, 0), (0, 0), (0, 0), (1 / 2, 1 / 2), (0, 0), (0, 0), (0, 0),
                      (1 / 2, 3 / 4)]]\<rparr>,
        c(''Left'' \<mapsto> \<lparr>thumb = Some (100, 100), index = Some (100, 150)\<rparr>))"
  by (simp add: run_extract_hand_def py_index_def py_getitem_def then_do_def
        py_int_def Let_def fingertips_overwrite)

lemma run_coords_left_example:
  "run_coords \<lparr>frame = [], midi = ms\<rparr>
        \<lparr>ret = True, shape = (200, 200),
         multi_hand_landmarks = Some [[(0, 0), (0, 0), (0, 0), (0, 0), (1 / 2, 1 / 2), (0, 0), (0, 0), (0, 0), (1 / 2, 3 / 4)]],
         multi_handedness = Some [[''Left'']], now_time = t, key = k\<rparr> =
   Inr (\<lparr>frame = [Circle (100, 100) 8 (0, 255, 0) (- 1), Circle (100, 150) 8 (0, 0, 255) (- 1),
                  Line (100, 100) (100, 150) (255, 0, 0) 2,
                  Skeleton [(0, 0), (0, 0), (0, 0), (0, 0), (1 / 2, 1 / 2), (0, 0), (0, 0), (0, 0), (1 / 2, 3 / 4)]],
          midi = ms\<rparr>,
        [''Right'' \<mapsto> \<lparr>thumb = None, index = None\<rparr>,
         ''Left'' \<mapsto> \<lparr>thumb = Some (100, 100), index = Some (100, 150)\<rparr>])"
proof -
  have f: "fresh_coords = [''Right'' \<mapsto> \<lparr>thumb = None, index = None\<rparr>,
                          ''Left'' \<mapsto> \<lparr>thumb = None, index = None\<rparr>]"
    by (simp add: fresh_coords_def fun_upd_twist)
  have "run_extract_hand 200 200 (\<lparr>frame = [], midi = ms\<rparr>, fresh_coords)
     ([(0, 0), (0, 0), (0, 0), (0, 0), (1 / 2, 1 / 2), (0, 0), (0, 0), (0, 0), (1 / 2, 3 / 4)],
      [''Left'']) =
   Inr (\<lparr>frame = [Circle (100, 100) 8 (0, 255, 0) (- 1), Circle (100, 150) 8 (0, 0, 255) (- 1),
                  Line (100, 100) (100, 150) (255, 0, 0) 2,
                  Skeleton [(0, 0), (0, 0), (0, 0), (0, 0), (1 / 2, 1 / 2), (0, 0), (0, 0), (0, 0), (1 / 2, 3 / 4)]],
          midi = ms\<rparr>,
        [''Right'' \<mapsto> \<lparr>thumb = None, index = None\<rparr>,
         ''Left'' \<mapsto> \<lparr>thumb = Some (100, 100), index = Some (100, 150)\<rparr>])"
    unfolding f by (simp add: run_extract_hand_left_example)
  then show ?thesis by (simp add: run_coords_def)
qed

section \<open>Claims about the Normalizer\<close>

text \<open>
  C1. For a range with \<open>minPx < maxPx\<close>, \<^verbatim>\<open>normalize_to_cc\<close> returns what the
  specification's Normalizer computes: the distance clamped into \<open>[minPx, maxPx]\<close>,
  scaled to \<open>[0, 1]\<close>, times 127, floored. It returns 0 at \<open>minPx\<close> and 127 at
  \<open>maxPx\<close>; a distance below \<open>minPx\<close> gives the result of \<open>minPx\<close>, a distance above
  \<open>maxPx\<close> the result of \<open>maxPx\<close>.
\<close>

theorem normalize_to_cc_refines_toCC_spec:
  assumes "minPx < maxPx"
  shows "normalize_to_cc d minPx maxPx = Inr (toCC_spec d minPx maxPx)
       \<and> normalize_to_cc minPx minPx maxPx = Inr 0
       \<and> normalize_to_cc maxPx minPx maxPx = Inr 127
       \<and> (d < minPx \<longrightarrow> normalize_to_cc d minPx maxPx = normalize_to_cc minPx minPx maxPx)
       \<and> (maxPx < d \<longrightarrow> normalize_to_cc d minPx maxPx = normalize_to_cc maxPx minPx maxPx)"
proof -
  have a: "normalize_to_cc d minPx maxPx = Inr (toCC_spec d minPx maxPx)" for d
    using assms by (simp add: normalize_to_cc_value toCC_spec_def clamp_spec_eq)
  have b: "toCC_spec minPx minPx maxPx = 0"
    using assms by (simp add: toCC_spec_def clamp_spec_def)
  have c: "toCC_spec maxPx minPx maxPx = 127"
    using assms by (simp add: toCC_spec_def clamp_spec_def)
  have d: "d < minPx \<Longrightarrow> toCC_spec d minPx maxPx = toCC_spec minPx minPx maxPx"
    using assms by (simp add: toCC_spec_def clamp_spec_def)
  have e: "maxPx < d \<Longrightarrow> toCC_spec d minPx maxPx = toCC_spec maxPx minPx maxPx"
    using assms by (simp add: toCC_spec_def clamp_spec_def)
  show ?thesis using a b c d e by simp
qed

theorem normalize_to_cc_refines_toCC_spec_witness:
  "(20::real) < 400
   \<and> normalize_to_cc 10 20 400 = Inr (toCC_spec 10 20 400)
   \<and> normalize_to_cc 20 20 400 = Inr 0
   \<and> normalize_to_cc 400 20 400 = Inr 127
   \<and> (10::real) < 20 \<and> normalize_to_cc 10 20 400 = normalize_to_cc 20 20 400
   \<and> (400::real) < 500 \<and> normalize_to_cc 500 20 400 = normalize_to_cc 400 20 400"
  using normalize_to_cc_refines_toCC_spec [of 20 400 10]
        normalize_to_cc_refines_toCC_spec [of 20 400 500]
  by (simp add: toCC_spec_def clamp_spec_def)

text \<open>
  C2. For a range with \<open>minPx < maxPx\<close>, \<^verbatim>\<open>normalize_to_cc\<close> returns an integer in
  \<open>[0, 127]\<close> for every distance, also one outside the range, and a larger distance
  never gives a smaller result.
\<close>

theorem normalize_to_cc_bounded_monotone:
  assumes "minPx < maxPx"
  shows "(\<exists>v. normalize_to_cc d minPx maxPx = Inr v \<and> 0 \<le> v \<and> v \<le> 127)
       \<and> (d1 \<le> d2 \<longrightarrow>
            (\<exists>v1 v2. normalize_to_cc d1 minPx maxPx = Inr v1
                   \<and> normalize_to_cc d2 minPx maxPx = Inr v2 \<and> v1 \<le> v2))"
proof -
  define f where "f = (\<lambda>d. (max minPx (min maxPx d) - minPx) / (maxPx - minPx))"
  have pos: "0 < maxPx - minPx" using assms by simp
  have lo: "0 \<le> f d" for d using assms by (simp add: f_def)
  have hi: "f d \<le> 1" for d using assms by (simp add: f_def)
  have mono: "d1 \<le> d2 \<Longrightarrow> f d1 \<le> f d2"
    unfolding f_def using pos by (simp add: divide_right_mono)
  have val: "normalize_to_cc d minPx maxPx = Inr \<lfloor>f d * 127\<rfloor>" for d
    unfolding f_def using assms by (rule normalize_to_cc_value)
  have "0 \<le> f d * 127" using lo[of d] by simp
  then have r1: "0 \<le> \<lfloor>f d * 127\<rfloor>" by simp
  have "f d * 127 \<le> 127" using hi[of d] by simp
  then have r2: "\<lfloor>f d * 127\<rfloor> \<le> 127" by (simp add: floor_le_iff)
  have r3: "d1 \<le> d2 \<Longrightarrow> \<lfloor>f d1 * 127\<rfloor> \<le> \<lfloor>f d2 * 127\<rfloor>"
    using mono by (intro floor_mono) simp
  show ?thesis using r1 r2 r3 by (simp add: val)
qed

theorem normalize_to_cc_bounded_monotone_witness:
  "(20::real) < 400
   \<and> (\<exists>v. normalize_to_cc 1000 20 400 = Inr v \<and> 0 \<le> v \<and> v \<le> 127)
   \<and> (50::real) \<le> 60
   \<and> (\<exists>v1 v2. normalize_to_cc 50 20 400 = Inr v1 \<and> normalize_to_cc 60 20 400 = Inr v2 \<and> v1 \<le> v2)"
  using normalize_to_cc_bounded_monotone [of 20 400 1000 50 60]
  by simp

section \<open>Claims about the GeometryEngine\<close>

text \<open>
  C6. \<^verbatim>\<open>draw_line_info\<close> returns \<^verbatim>\<open>None\<close> (and touches neither the frame nor the
  port) when either point is \<^verbatim>\<open>None\<close>. With both points it returns the distance
  \<open>sqrt ((x2 - x1)\<^sup>2 + (y2 - y1)\<^sup>2)\<close> and the angle \<open>atan2 (y2 - y1) (x2 - x1)\<close> in
  degrees, which lies in \<open>(-180, 180]\<close>; for twice the same point it returns distance 0
  and angle 0. The range is assumed to have \<open>min \<noteq> max\<close>, since the call divides by
  \<open>max - min\<close> on the way.
\<close>

theorem draw_line_info_measure:
  assumes "MIN_DIST_PX cfg \<noteq> MAX_DIST_PX cfg"
  shows "(p1 = None \<or> p2 = None \<longrightarrow> draw_line_info cfg w p1 p2 lbl col m cc = Inr (w, None))
       \<and> (\<exists>w'. draw_line_info cfg w (Some (x1, y1)) (Some (x2, y2)) lbl col m cc =
                 Inr (w', Some (sqrt (real_of_int ((x2 - x1) ^ 2 + (y2 - y1) ^ 2)),
                                py_degrees (py_atan2 (real_of_int (y2 - y1)) (real_of_int (x2 - x1))))))
       \<and> - 180 < py_degrees (py_atan2 (real_of_int (y2 - y1)) (real_of_int (x2 - x1)))
       \<and> py_degrees (py_atan2 (real_of_int (y2 - y1)) (real_of_int (x2 - x1))) \<le> 180
       \<and> (\<exists>w'. draw_line_info cfg w (Some (x1, y1)) (Some (x1, y1)) lbl col m cc =
                 Inr (w', Some (0, 0)))"
proof -
  have a: "p1 = None \<or> p2 = None \<longrightarrow> draw_line_info cfg w p1 p2 lbl col m cc = Inr (w, None)"
    by (simp add: draw_line_info_absent)
  have b: "\<exists>w'. draw_line_info cfg w (Some (x1, y1)) (Some (x2, y2)) lbl col m cc =
                 Inr (w', Some (sqrt (real_of_int ((x2 - x1) ^ 2 + (y2 - y1) ^ 2)),
                                py_degrees (py_atan2 (real_of_int (y2 - y1)) (real_of_int (x2 - x1)))))"
    for x2 y2
  proof -
    obtain v where "normalize_to_cc (sqrt (real_of_int ((x2 - x1) ^ 2 + (y2 - y1) ^ 2)))
                      (MIN_DIST_PX cfg) (MAX_DIST_PX cfg) = Inr v"
      using normalize_to_cc_total [OF assms] by blast
    then show ?thesis by (simp add: draw_line_info_present)
  qed
  have c: "- 180 < py_degrees (py_atan2 (real_of_int (y2 - y1)) (real_of_int (x2 - x1)))
         \<and> py_degrees (py_atan2 (real_of_int (y2 - y1)) (real_of_int (x2 - x1))) \<le> 180"
    using py_atan2_range py_degrees_range by blast
  have d: "\<exists>w'. draw_line_info cfg w (Some (x1, y1)) (Some (x1, y1)) lbl col m cc =
                 Inr (w', Some (0, 0))"
    using b [of x1 y1] by (simp add: py_atan2_origin py_degrees_zero)
  show ?thesis using a b c d by blast
qed

theorem draw_line_info_measure_witness:
  "MIN_DIST_PX default_config \<noteq> MAX_DIST_PX default_config
   \<and> draw_line_info default_config \<lparr>frame = [], midi = []\<rparr> None (Some (3, 4)) ''T-T'' (0, 255, 255)
         None None = Inr (\<lparr>frame = [], midi = []\<rparr>, None)
   \<and> (\<exists>w'. draw_line_info default_config \<lparr>frame = [], midi = []\<rparr> (Some (0, 0)) (Some (3, 4))
              ''T-T'' (0, 255, 255) None None =
            Inr (w', Some (sqrt (real_of_int ((3 - 0) ^ 2 + (4 - 0) ^ 2)),
                           py_degrees (py_atan2 (real_of_int (4 - 0)) (real_of_int (3 - 0))))))
   \<and> - 180 < py_degrees (py_atan2 (real_of_int (4 - 0)) (real_of_int (3 - 0)))
   \<and> py_degrees (py_atan2 (real_of_int (4 - 0)) (real_of_int (3 - 0))) \<le> 180
   \<and> (\<exists>w'. draw_line_info default_config \<lparr>frame = [], midi = []\<rparr> (Some (0, 0)) (Some (0, 0))
              ''T-T'' (0, 255, 255) None None = Inr (w', Some (0, 0)))"
  using draw_line_info_measure [of default_config None "Some (3, 4)" "\<lparr>frame = [], midi = []\<rparr>"
          "''T-T''" "(0, 255, 255)" None None 0 0 3 4]
  by (simp add: default_config_def)

section \<open>Claims about the RateLimiter\<close>

text \<open>
  C4, as the specification states it, fails on the code: the loop starts with
  \<^verbatim>\<open>last_send = 0.0\<close>, so a first frame read at time 0 is not permitted to send
  (\<open>0 - 0 > 1/30\<close> is false). Frames at the times 0 and 0.02 give (false, false),
  frames at 0 and 0.05 give (false, true).
\<close>

theorem rate_gate_initial_counterexample:
  "gate_decisions initial_last_send [0, 1 / 50] = [False, False]
   \<and> gate_decisions initial_last_send [0, 1 / 20] = [False, True]"
  by (simp add: send_midi_now_def initial_last_send_def send_interval_def)

text \<open>
  C4, amended. The interval is 1/30 s and a frame may send exactly when
  \<open>now - last_send > 1/30\<close>, strictly: at a difference of exactly 1/30 it may not.
  From the initial state, when the first frame is read at a time \<open>t0 > 1/30\<close> (as with
  the wall clock the code reads), frames at \<open>t0\<close> and \<open>t0 + 0.02\<close> give (true, false)
  and frames at \<open>t0\<close> and \<open>t0 + 0.05\<close> give (true, true). A frame that completes
  sets \<^verbatim>\<open>last_send\<close> to its time when it sent and leaves it unchanged otherwise.
\<close>

theorem rate_gate_policy:
  "send_interval = 1 / 30
   \<and> (send_midi_now now prev \<longleftrightarrow> send_interval < now - prev)
   \<and> \<not> send_midi_now (prev + send_interval) prev
   \<and> (1 / 30 < t0 \<longrightarrow> gate_decisions initial_last_send [t0, t0 + 1 / 50] = [True, False]
                     \<and> gate_decisions initial_last_send [t0, t0 + 1 / 20] = [True, True])
   \<and> (run_frame cfg st inp = Inr st' \<longrightarrow>
        last_send st' = (if send_midi_now (now_time inp) (last_send st) then now_time inp
                         else last_send st))"
  using run_frame_last_send [of cfg st inp st']
  by (simp add: send_midi_now_def initial_last_send_def send_interval_def)

theorem rate_gate_policy_witness:
  "(1 / 30 :: real) < 1
   \<and> gate_decisions initial_last_send [1, 1 + 1 / 50] = [True, False]
   \<and> gate_decisions initial_last_send [1, 1 + 1 / 20] = [True, True]
   \<and> run_frame default_config initial_state
        \<lparr>ret = True, shape = (480, 640), multi_hand_landmarks = None, multi_handedness = None,
         now_time = 1, key = 0\<rparr>
      = Inr \<lparr>last_send = 1, midi_port = [], shown = [[]]\<rparr>
   \<and> last_send \<lparr>last_send = 1, midi_port = [], shown = [[]]\<rparr>
      = (if send_midi_now 1 (last_send initial_state) then 1 else last_send initial_state)"
  using rate_gate_policy [of 1 0 1 default_config initial_state
          "\<lparr>ret = True, shape = (480, 640), multi_hand_landmarks = None, multi_handedness = None,
            now_time = 1, key = 0\<rparr>" "\<lparr>last_send = 1, midi_port = [], shown = [[]]\<rparr>"]
  by (simp add: run_frame_no_hands initial_state_def initial_last_send_def send_midi_now_def
        send_interval_def)

section \<open>Claims about one frame\<close>

text \<open>
  C7. With the range 20 to 400: for the left thumb at (100, 100) and the left index at
  (100, 150), \<^verbatim>\<open>draw_line_info\<close> returns distance 50 and angle 90 degrees and sends the
  value 10 on controller 20, which is also \<open>round ((50 - 20) / (400 - 20) * 127)\<close>. With
  no right hand, the calls for the right hand, for thumb to thumb and for index to index
  return \<^verbatim>\<open>None\<close> and send nothing. A whole frame with only this left hand, taken
  when the gate permits, sends exactly the one message \<open>[176, 20, 10]\<close>.
\<close>

theorem left_hand_only_scenario:
  "draw_line_info default_config \<lparr>frame = [], midi = []\<rparr> (Some (100, 100)) (Some (100, 150))
       ''L T-I'' (255, 0, 0) (Some Port) (Some CC_LEFT_HAND) =
     Inr (\<lparr>frame = [Line (100, 100) (100, 150) (255, 0, 0) 2,
                     PutText ''L T-I'' 10 90 (100, 115) (255, 0, 0)],
            midi = [[176, 20, 10]]\<rparr>, Some (50, 90))
   \<and> normalize_to_cc 50 20 400 = Inr (round ((50 - 20) / (400 - 20) * 127 :: real))
   \<and> round ((50 - 20) / (400 - 20) * 127 :: real) = 10
   \<and> draw_line_info default_config \<lparr>frame = [], midi = []\<rparr> None None
        ''R T-I'' (255, 0, 0) (Some Port) (Some CC_RIGHT_HAND) = Inr (\<lparr>frame = [], midi = []\<rparr>, None)
   \<and> draw_line_info default_config \<lparr>frame = [], midi = []\<rparr> (Some (100, 100)) None
        ''T-T'' (0, 255, 255) (Some Port) (Some CC_THUMB_TO_THUMB) = Inr (\<lparr>frame = [], midi = []\<rparr>, None)
   \<and> draw_line_info default_config \<lparr>frame = [], midi = []\<rparr> (Some (100, 150)) None
        ''I-I'' (255, 255, 0) (Some Port) (Some CC_INDEX_TO_INDEX) = Inr (\<lparr>frame = [], midi = []\<rparr>, None)
   \<and> run_frame default_config initial_state
        \<lparr>ret = True, shape = (200, 200),
         multi_hand_landmarks = Some [[(0, 0), (0, 0), (0, 0), (0, 0), (1 / 2, 1 / 2), (0, 0), (0, 0), (0, 0), (1 / 2, 3 / 4)]],
         multi_handedness = Some [[''Left'']], now_time = 1, key = 0\<rparr> =
       Inr \<lparr>last_send = 1, midi_port = [[176, 20, 10]],
            shown = [[Circle (100, 100) 8 (0, 255, 0) (- 1), Circle (100, 150) 8 (0, 0, 255) (- 1),
                      Line (100, 100) (100, 150) (255, 0, 0) 2,
                      Skeleton [(0, 0), (0, 0), (0, 0), (0, 0), (1 / 2, 1 / 2), (0, 0), (0, 0), (0, 0), (1 / 2, 3 / 4)],
                      Line (100, 100) (100, 150) (255, 0, 0) 2,
                      PutText ''L T-I'' 10 90 (100, 115) (255, 0, 0)]]\<rparr>"
proof -
  have a: "draw_line_info default_config \<lparr>frame = [], midi = []\<rparr> (Some (100, 100)) (Some (100, 150))
       ''L T-I'' (255, 0, 0) (Some Port) (Some CC_LEFT_HAND) =
     Inr (\<lparr>frame = [Line (100, 100) (100, 150) (255, 0, 0) 2,
                     PutText ''L T-I'' 10 90 (100, 115) (255, 0, 0)],
            midi = [[176, 20, 10]]\<rparr>, Some (50, 90))"
    by (simp add: draw_line_info_left_hand_example send_cc_def MIDI_CHANNEL_def CC_LEFT_HAND_def
          Let_def)
  have r: "round ((50 - 20) / (400 - 20) * 127 :: real) = 10"
    by (simp add: round_def)
  have b: "normalize_to_cc 50 20 400 = Inr (round ((50 - 20) / (400 - 20) * 127 :: real))"
    unfolding r by (rule normalize_to_cc_50)
  have ex: "run_extract_hand 200 200 (\<lparr>frame = [], midi = []\<rparr>, fresh_coords)
     ([(0, 0), (0, 0), (0, 0), (0, 0), (1 / 2, 1 / 2), (0, 0), (0, 0), (0, 0), (1 / 2, 3 / 4)], [''Left'']) =
   Inr (\<lparr>frame = [Circle (100, 100) 8 (0, 255, 0) (- 1), Circle (100, 150) 8 (0, 0, 255) (- 1),
                  Line (100, 100) (100, 150) (255, 0, 0) 2,
                  Skeleton [(0, 0), (0, 0), (0, 0), (0, 0), (1 / 2, 1 / 2), (0, 0), (0, 0), (0, 0), (1 / 2, 3 / 4)]],
          midi = []\<rparr>,
        [''Left'' \<mapsto> \<lparr>thumb = Some (100, 100), index = Some (100, 150)\<rparr>,
         ''Right'' \<mapsto> \<lparr>thumb = None, index = None\<rparr>])"
    by (simp add: run_extract_hand_def py_index_def py_getitem_def fresh_coords_def then_do_def
          py_int_def Let_def fun_upd_twist)
  have c: "run_frame default_config initial_state
        \<lparr>ret = True, shape = (200, 200),
         multi_hand_landmarks = Some [[(0, 0), (0, 0), (0, 0), (0, 0), (1 / 2, 1 / 2), (0, 0), (0, 0), (0, 0), (1 / 2, 3 / 4)]],
         multi_handedness = Some [[''Left'']], now_time = 1, key = 0\<rparr> =
       Inr \<lparr>last_send = 1, midi_port = [[176, 20, 10]],
            shown = [[Circle (100, 100) 8 (0, 255, 0) (- 1), Circle (100, 150) 8 (0, 0, 255) (- 1),
                      Line (100, 100) (100, 150) (255, 0, 0) 2,
                      Skeleton [(0, 0), (0, 0), (0, 0), (0, 0), (1 / 2, 1 / 2), (0, 0), (0, 0), (0, 0), (1 / 2, 3 / 4)],
                      Line (100, 100) (100, 150) (255, 0, 0) 2,
                      PutText ''L T-I'' 10 90 (100, 115) (255, 0, 0)]]\<rparr>"
    by (simp add: run_frame_def run_coords_def initial_state_def ex then_do_def
          py_getitem_def send_midi_now_def initial_last_send_def send_interval_def
          run_draw_lines_def draw_line_info_left_hand_example draw_line_info_absent send_cc_def
          MIDI_CHANNEL_def CC_LEFT_HAND_def Let_def)
  show ?thesis using a b c r by (simp add: draw_line_info_absent)
qed

section \<open>Claims about the configuration\<close>

text \<open>
  C8, as the specification states it, fails on the code: nothing validates the range.
  With the range 20 to 20, and with the range 400 to 20, \<^verbatim>\<open>run\<close> enters the loop,
  processes and shows a frame without hands, and ends normally when the camera gives
  no further frame.
\<close>

theorem invalid_range_not_rejected_counterexample:
  "run \<lparr>MIN_DIST_PX = 20, MAX_DIST_PX = 20\<rparr>
       [\<lparr>ret = True, shape = (480, 640), multi_hand_landmarks = None, multi_handedness = None,
         now_time = 1, key = 0\<rparr>]
     = Inr \<lparr>last_send = 1, midi_port = [], shown = [[]]\<rparr>
   \<and> run \<lparr>MIN_DIST_PX = 400, MAX_DIST_PX = 20\<rparr>
       [\<lparr>ret = True, shape = (480, 640), multi_hand_landmarks = None, multi_handedness = None,
         now_time = 1, key = 0\<rparr>]
     = Inr \<lparr>last_send = 1, midi_port = [], shown = [[]]\<rparr>"
  by (simp add: run_def run_frame_no_hands initial_state_def initial_last_send_def
        send_midi_now_def send_interval_def)

text \<open>
  C8, amended. The code does not validate the range. For every range \<^verbatim>\<open>run\<close>
  reaches the loop, and a frame in which no hand is detected is processed without an
  error. With \<open>min = max\<close>, \<^verbatim>\<open>normalize_to_cc\<close> raises \<^verbatim>\<open>ZeroDivisionError\<close>, and so
  does every call of \<^verbatim>\<open>draw_line_info\<close> with both points present, inside the frame
  loop. With \<open>min > max\<close> nothing is raised and every distance is mapped to 0.
\<close>

theorem invalid_range_behaviour:
  "run cfg [] = Inr initial_state
   \<and> (multi_hand_landmarks inp = None \<longrightarrow> (\<exists>st'. run_frame cfg st inp = Inr st'))
   \<and> (MIN_DIST_PX cfg = MAX_DIST_PX cfg \<longrightarrow>
        normalize_to_cc d (MIN_DIST_PX cfg) (MAX_DIST_PX cfg) = Inl ZeroDivisionError
        \<and> draw_line_info cfg w (Some p1) (Some p2) lbl col m cc = Inl ZeroDivisionError)
   \<and> (MAX_DIST_PX cfg < MIN_DIST_PX cfg \<longrightarrow>
        normalize_to_cc d (MIN_DIST_PX cfg) (MAX_DIST_PX cfg) = Inr 0
        \<and> (\<exists>w' r. draw_line_info cfg w (Some p1) (Some p2) lbl col m cc = Inr (w', r)))"
proof -
  have a: "run cfg [] = Inr initial_state" by (simp add: run_def)
  have b: "multi_hand_landmarks inp = None \<longrightarrow> (\<exists>st'. run_frame cfg st inp = Inr st')"
    by (simp add: run_frame_no_hands)
  have c: "MIN_DIST_PX cfg = MAX_DIST_PX cfg \<longrightarrow>
        normalize_to_cc d (MIN_DIST_PX cfg) (MAX_DIST_PX cfg) = Inl ZeroDivisionError
        \<and> draw_line_info cfg w (Some p1) (Some p2) lbl col m cc = Inl ZeroDivisionError"
    by (cases p1; cases p2)
       (simp add: normalize_to_cc_degenerate draw_line_info_def then_do_def Let_def)
  have d: "MAX_DIST_PX cfg < MIN_DIST_PX cfg \<longrightarrow>
        normalize_to_cc d (MIN_DIST_PX cfg) (MAX_DIST_PX cfg) = Inr 0
        \<and> (\<exists>w' r. draw_line_info cfg w (Some p1) (Some p2) lbl col m cc = Inr (w', r))"
  proof
    assume lt: "MAX_DIST_PX cfg < MIN_DIST_PX cfg"
    then have ne: "MIN_DIST_PX cfg \<noteq> MAX_DIST_PX cfg" by simp
    from draw_line_info_effect [OF ne, of w "Some p1" "Some p2" lbl col m cc]
    have "\<exists>w' r. draw_line_info cfg w (Some p1) (Some p2) lbl col m cc = Inr (w', r)" by blast
    with lt show "normalize_to_cc d (MIN_DIST_PX cfg) (MAX_DIST_PX cfg) = Inr 0
        \<and> (\<exists>w' r. draw_line_info cfg w (Some p1) (Some p2) lbl col m cc = Inr (w', r))"
      by (simp add: normalize_to_cc_inverted)
  qed
  show ?thesis using a b c d by blast
qed

theorem invalid_range_behaviour_witness:
  "run \<lparr>MIN_DIST_PX = 20, MAX_DIST_PX = 20\<rparr> [] = Inr initial_state
   \<and> (\<exists>st'. run_frame \<lparr>MIN_DIST_PX = 20, MAX_DIST_PX = 20\<rparr> initial_state
        \<lparr>ret = True, shape = (480, 640), multi_hand_landmarks = None, multi_handedness = None,
         now_time = 1, key = 0\<rparr> = Inr st')
   \<and> normalize_to_cc 50 20 20 = Inl ZeroDivisionError
   \<and> draw_line_info \<lparr>MIN_DIST_PX = 20, MAX_DIST_PX = 20\<rparr> \<lparr>frame = [], midi = []\<rparr>
        (Some (100, 100)) (Some (100, 150)) ''L T-I'' (255, 0, 0) None None = Inl ZeroDivisionError
   \<and> (20 :: real) < 400
   \<and> normalize_to_cc 50 400 20 = Inr 0
   \<and> (\<exists>w' r. draw_line_info \<lparr>MIN_DIST_PX = 400, MAX_DIST_PX = 20\<rparr> \<lparr>frame = [], midi = []\<rparr>
        (Some (100, 100)) (Some (100, 150)) ''L T-I'' (255, 0, 0) None None = Inr (w', r))"
  using invalid_range_behaviour [of "\<lparr>MIN_DIST_PX = 20, MAX_DIST_PX = 20\<rparr>"
          "\<lparr>ret = True, shape = (480, 640), multi_hand_landmarks = None, multi_handedness = None,
            now_time = 1, key = 0\<rparr>" initial_state 50 "\<lparr>frame = [], midi = []\<rparr>"
          "(100, 100)" "(100, 150)" "''L T-I''" "(255, 0, 0)" None None]
        invalid_range_behaviour [of "\<lparr>MIN_DIST_PX = 400, MAX_DIST_PX = 20\<rparr>"
          "\<lparr>ret = True, shape = (480, 640), multi_hand_landmarks = None, multi_handedness = None,
            now_time = 1, key = 0\<rparr>" initial_state 50 "\<lparr>frame = [], midi = []\<rparr>"
          "(100, 100)" "(100, 150)" "''L T-I''" "(255, 0, 0)" None None]
  by simp

section \<open>Claims about the FeatureExtractor\<close>

text \<open>
  C10. Whenever the extraction of a frame completes, \<^verbatim>\<open>coords\<close> holds an entry for
  \<^verbatim>\<open>"Left"\<close> and one for \<^verbatim>\<open>"Right"\<close>, and in each the thumb and the index are both
  set or both \<^verbatim>\<open>None\<close>. The extraction completes for every frame whose hands are well
  formed.
\<close>

theorem fingertips_both_or_neither:
  "(run_coords wd inp = Inr (wd', c') \<longrightarrow>
      (\<exists>l r. c' ''Left'' = Some l \<and> c' ''Right'' = Some r
         \<and> (thumb l = None \<longleftrightarrow> index l = None)
         \<and> (thumb r = None \<longleftrightarrow> index r = None)))
   \<and> (multi_hand_landmarks inp = Some (map fst hands) \<and> multi_handedness inp = Some (map snd hands)
        \<and> (\<forall>hand \<in> set hands. well_formed_hand hand) \<longrightarrow>
      (\<exists>wd1 c1. run_coords wd inp = Inr (wd1, c1)))"
proof -
  have a: "run_coords wd inp = Inr (wd', c') \<longrightarrow>
      (\<exists>l r. c' ''Left'' = Some l \<and> c' ''Right'' = Some r
         \<and> (thumb l = None \<longleftrightarrow> index l = None)
         \<and> (thumb r = None \<longleftrightarrow> index r = None))"
    using run_coords_inv [of wd inp wd' c'] by (simp add: coords_inv_def)
  have b: "\<exists>wd1 c1. run_coords wd inp = Inr (wd1, c1)"
    if mh: "multi_hand_landmarks inp = Some (map fst hands)"
      and md: "multi_handedness inp = Some (map snd hands)"
      and wf: "\<forall>hand \<in> set hands. well_formed_hand hand"
  proof -
    obtain h w where hw: "shape inp = (h, w)" by (cases "shape inp")
    have l: "fresh_coords ''Left'' \<noteq> None" and r: "fresh_coords ''Right'' \<noteq> None"
      by (simp_all add: fresh_coords_def)
    from run_extract_well_formed [OF wf l r, of w h wd]
    obtain wd1 c1 where "run_extract w h (wd, fresh_coords) hands = Inr (wd1, c1)" by blast
    then show ?thesis by (simp add: run_coords_hands [OF mh md hw])
  qed
  show ?thesis using a b by blast
qed

theorem fingertips_both_or_neither_witness:
  "run_coords \<lparr>frame = [], midi = []\<rparr> \<lparr>ret = True, shape = (200, 200),
         multi_hand_landmarks = Some [[(0, 0), (0, 0), (0, 0), (0, 0), (1 / 2, 1 / 2), (0, 0), (0, 0), (0, 0), (1 / 2, 3 / 4)]],
         multi_handedness = Some [[''Left'']], now_time = 1, key = 0\<rparr> = Inr (\<lparr>frame = [Circle (100, 100) 8 (0, 255, 0) (- 1), Circle (100, 150) 8 (0, 0, 255) (- 1),
                  Line (100, 100) (100, 150) (255, 0, 0) 2,
                  Skeleton [(0, 0), (0, 0), (0, 0), (0, 0), (1 / 2, 1 / 2), (0, 0), (0, 0), (0, 0), (1 / 2, 3 / 4)]],
          midi = []\<rparr>, [''Right'' \<mapsto> \<lparr>thumb = None, index = None\<rparr>,
         ''Left'' \<mapsto> \<lparr>thumb = Some (100, 100), index = Some (100, 150)\<rparr>])
   \<and> (\<exists>l r. ([''Right'' \<mapsto> \<lparr>thumb = None, index = None\<rparr>,
         ''Left'' \<mapsto> \<lparr>thumb = Some (100, 100), index = Some (100, 150)\<rparr>]) ''Left'' = Some l \<and> ([''Right'' \<mapsto> \<lparr>thumb = None, index = None\<rparr>,
         ''Left'' \<mapsto> \<lparr>thumb = Some (100, 100), index = Some (100, 150)\<rparr>]) ''Right'' = Some r
         \<and> (thumb l = None \<longleftrightarrow> index l = None)
         \<and> (thumb r = None \<longleftrightarrow> index r = None))
   \<and> well_formed_hand ([(0, 0), (0, 0), (0, 0), (0, 0), (1 / 2, 1 / 2), (0, 0), (0, 0), (0, 0), (1 / 2, 3 / 4)], [''Left''])
   \<and> (\<exists>wd1 c1. run_coords \<lparr>frame = [], midi = []\<rparr> \<lparr>ret = True, shape = (200, 200),
         multi_hand_landmarks = Some [[(0, 0), (0, 0), (0, 0), (0, 0), (1 / 2, 1 / 2), (0, 0), (0, 0), (0, 0), (1 / 2, 3 / 4)]],
         multi_handedness = Some [[''Left'']], now_time = 1, key = 0\<rparr> = Inr (wd1, c1))"
  using fingertips_both_or_neither [of "\<lparr>frame = [], midi = []\<rparr>" "\<lparr>ret = True, shape = (200, 200),
         multi_hand_landmarks = Some [[(0, 0), (0, 0), (0, 0), (0, 0), (1 / 2, 1 / 2), (0, 0), (0, 0), (0, 0), (1 / 2, 3 / 4)]],
         multi_handedness = Some [[''Left'']], now_time = 1, key = 0\<rparr>"
          "\<lparr>frame = [Circle (100, 100) 8 (0, 255, 0) (- 1), Circle (100, 150) 8 (0, 0, 255) (- 1),
                  Line (100, 100) (100, 150) (255, 0, 0) 2,
                  Skeleton [(0, 0), (0, 0), (0, 0), (0, 0), (1 / 2, 1 / 2), (0, 0), (0, 0), (0, 0), (1 / 2, 3 / 4)]],
          midi = []\<rparr>" "[''Right'' \<mapsto> \<lparr>thumb = None, index = None\<rparr>,
         ''Left'' \<mapsto> \<lparr>thumb = Some (100, 100), index = Some (100, 150)\<rparr>]" "[([(0, 0), (0, 0), (0, 0), (0, 0), (1 / 2, 1 / 2), (0, 0), (0, 0), (0, 0), (1 / 2, 3 / 4)], [''Left''])]"]
  by (simp add: run_coords_left_example well_formed_hand_def)

text \<open>
  C9. For a frame whose hands are well formed, the extraction completes without an
  error, and the entry of a side holds the thumb and index pixels of the last hand in
  the sequence that carries that side's label: whatever earlier hands with the same
  label wrote is overwritten.
\<close>

theorem duplicate_side_label_last_write_wins:
  assumes "multi_hand_landmarks inp = Some (map fst hands)"
    and "multi_handedness inp = Some (map snd hands)"
    and "shape inp = (h, w)"
    and "hands = pre @ (lms, s # rest) # post"
    and "\<forall>hand \<in> set hands. well_formed_hand hand"
    and "\<forall>hand \<in> set post. hand_label hand \<noteq> Some s"
  shows "\<exists>wd' c'. run_coords wd inp = Inr (wd', c')
           \<and> c' s = Some \<lparr>thumb = Some (py_int (fst (lms ! 4) * real_of_int w),
                                          py_int (snd (lms ! 4) * real_of_int h)),
                           index = Some (py_int (fst (lms ! 8) * real_of_int w),
                                          py_int (snd (lms ! 8) * real_of_int h))\<rparr>"
proof -
  have l: "fresh_coords ''Left'' \<noteq> None" and r: "fresh_coords ''Right'' \<noteq> None"
    by (simp_all add: fresh_coords_def)
  have wf: "\<forall>hand \<in> set (pre @ (lms, s # rest) # post). well_formed_hand hand"
    using assms(4,5) by simp
  show ?thesis
    unfolding run_coords_hands [OF assms(1,2,3)] assms(4)
    by (rule run_extract_last_wins [OF wf assms(6) l r])
qed


theorem duplicate_side_label_last_write_wins_witness:
  "well_formed_hand ([(1 / 4, 1 / 4), (1 / 4, 1 / 4), (1 / 4, 1 / 4), (1 / 4, 1 / 4), (1 / 4, 1 / 4), (1 / 4, 1 / 4), (1 / 4, 1 / 4), (1 / 4, 1 / 4), (1 / 4, 1 / 4)], [''Left''])
   \<and> well_formed_hand ([(0, 0), (0, 0), (0, 0), (0, 0), (1 / 2, 1 / 2), (0, 0), (0, 0), (0, 0), (1 / 2, 3 / 4)], [''Left''])
   \<and> (\<exists>wd' c'. run_coords \<lparr>frame = [], midi = []\<rparr>
         \<lparr>ret = True, shape = (200, 200),
          multi_hand_landmarks = Some [[(1 / 4, 1 / 4), (1 / 4, 1 / 4), (1 / 4, 1 / 4), (1 / 4, 1 / 4), (1 / 4, 1 / 4), (1 / 4, 1 / 4), (1 / 4, 1 / 4), (1 / 4, 1 / 4), (1 / 4, 1 / 4)],
             [(0, 0), (0, 0), (0, 0), (0, 0), (1 / 2, 1 / 2), (0, 0), (0, 0), (0, 0), (1 / 2, 3 / 4)]],
          multi_handedness = Some [[''Left''], [''Left'']], now_time = 1, key = 0\<rparr> = Inr (wd', c')
        \<and> c' ''Left'' = Some \<lparr>thumb = Some (100, 100), index = Some (100, 150)\<rparr>)"
proof -
  let ?A = "([(1 / 4, 1 / 4), (1 / 4, 1 / 4), (1 / 4, 1 / 4), (1 / 4, 1 / 4), (1 / 4, 1 / 4), (1 / 4, 1 / 4), (1 / 4, 1 / 4), (1 / 4, 1 / 4), (1 / 4, 1 / 4)], [''Left''])"
  let ?lms = "[(0, 0), (0, 0), (0, 0), (0, 0), (1 / 2, 1 / 2), (0, 0), (0, 0), (0, 0), (1 / 2, 3 / 4)]"
  let ?inp = "\<lparr>ret = True, shape = (200, 200),
          multi_hand_landmarks = Some [[(1 / 4, 1 / 4), (1 / 4, 1 / 4), (1 / 4, 1 / 4), (1 / 4, 1 / 4), (1 / 4, 1 / 4), (1 / 4, 1 / 4), (1 / 4, 1 / 4), (1 / 4, 1 / 4), (1 / 4, 1 / 4)],
             [(0, 0), (0, 0), (0, 0), (0, 0), (1 / 2, 1 / 2), (0, 0), (0, 0), (0, 0), (1 / 2, 3 / 4)]],
          multi_handedness = Some [[''Left''], [''Left'']], now_time = 1, key = 0\<rparr>"
  have wa: "well_formed_hand ?A" by (simp add: well_formed_hand_def)
  have wb: "well_formed_hand (?lms, [''Left''])" by (simp add: well_formed_hand_def)
  have h1: "multi_hand_landmarks ?inp = Some (map fst [?A, (?lms, [''Left''])])" by simp
  have h2: "multi_handedness ?inp = Some (map snd [?A, (?lms, [''Left''])])" by simp
  have h3: "shape ?inp = (200, 200)" by simp
  have h4: "[?A, (?lms, [''Left''])] = [?A] @ (?lms, ''Left'' # []) # []" by simp
  have h5: "\<forall>hand \<in> set [?A, (?lms, [''Left''])]. well_formed_hand hand"
    using wa wb by simp
  have h6: "\<forall>hand \<in> set []. hand_label hand \<noteq> Some ''Left''" by simp
  have px: "py_int 100 = 100" "py_int 150 = 150"
    by (simp_all add: py_int_def)
  from duplicate_side_label_last_write_wins [OF h1 h2 h3 h4 h5 h6, of "\<lparr>frame = [], midi = []\<rparr>"]
  have "\<exists>wd' c'. run_coords \<lparr>frame = [], midi = []\<rparr> ?inp = Inr (wd', c')
        \<and> c' ''Left'' = Some \<lparr>thumb = Some (100, 100), index = Some (100, 150)\<rparr>"
    by (simp add: px)
  with wa wb show ?thesis by blast
qed

section \<open>Claims about emission\<close>



text \<open>
  C5. One value of \<^verbatim>\<open>send_midi_now\<close>, computed from the frame's time and
  \<^verbatim>\<open>last_send\<close>, governs all four controllers of a frame that has passed the
  extraction: when it is false the frame sends nothing and \<^verbatim>\<open>last_send\<close> stays; when
  it is true every pair with both points present is sent, no other is, and
  \<^verbatim>\<open>last_send\<close> becomes the frame's time. The range is assumed to have \<open>min \<noteq> max\<close>.
\<close>

theorem single_shared_gate:
  assumes "MIN_DIST_PX cfg \<noteq> MAX_DIST_PX cfg"
    and "run_coords \<lparr>frame = [], midi = midi_port st\<rparr> inp = Inr (wd1, c)"
  shows "\<exists>st' new l r. run_frame cfg st inp = Inr st'
           \<and> c ''Left'' = Some l \<and> c ''Right'' = Some r
           \<and> midi_port st' = midi_port st @ new
           \<and> (\<not> send_midi_now (now_time inp) (last_send st) \<longrightarrow>
                 new = [] \<and> last_send st' = last_send st)
           \<and> (send_midi_now (now_time inp) (last_send st) \<longrightarrow>
                 last_send st' = now_time inp
                 \<and> ((\<exists>v. [176, CC_LEFT_HAND, v] \<in> set new) \<longleftrightarrow> thumb l \<noteq> None \<and> index l \<noteq> None)
                 \<and> ((\<exists>v. [176, CC_RIGHT_HAND, v] \<in> set new) \<longleftrightarrow> thumb r \<noteq> None \<and> index r \<noteq> None)
                 \<and> ((\<exists>v. [176, CC_THUMB_TO_THUMB, v] \<in> set new) \<longleftrightarrow> thumb l \<noteq> None \<and> thumb r \<noteq> None)
                 \<and> ((\<exists>v. [176, CC_INDEX_TO_INDEX, v] \<in> set new) \<longleftrightarrow> index l \<noteq> None \<and> index r \<noteq> None))"
proof -
  from run_coords_inv [OF assms(2)] have inv: "coords_inv c" and mid: "midi wd1 = midi_port st"
    by simp_all
  from inv obtain l r where l: "c ''Left'' = Some l" and r: "c ''Right'' = Some r"
    unfolding coords_inv_def by blast
  define g where "g = send_midi_now (now_time inp) (last_send st)"
  obtain v1 v2 v3 v4 w' where
    res: "run_draw_lines cfg wd1 g (thumb l) (index l) (thumb r) (index r) = Inr w'"
    and mw: "midi w' = midi wd1
               @ (if g \<and> thumb l \<noteq> None \<and> index l \<noteq> None then [[176, 20, max 0 (min 127 v1)]] else [])
               @ (if g \<and> thumb r \<noteq> None \<and> index r \<noteq> None then [[176, 21, max 0 (min 127 v2)]] else [])
               @ (if g \<and> thumb l \<noteq> None \<and> thumb r \<noteq> None then [[176, 22, max 0 (min 127 v3)]] else [])
               @ (if g \<and> index l \<noteq> None \<and> index r \<noteq> None then [[176, 23, max 0 (min 127 v4)]] else [])"
  proof -
    from run_draw_lines_effect [OF assms(1), of wd1 g "thumb l" "index l" "thumb r" "index r"]
    obtain v1 a1 q1 v2 a2 q2 v3 a3 q3 v4 a4 q4 w' where
      "run_draw_lines cfg wd1 g (thumb l) (index l) (thumb r) (index r) = Inr w'"
      "midi w' = midi wd1
               @ (if g \<and> thumb l \<noteq> None \<and> index l \<noteq> None then [[176, 20, max 0 (min 127 v1)]] else [])
               @ (if g \<and> thumb r \<noteq> None \<and> index r \<noteq> None then [[176, 21, max 0 (min 127 v2)]] else [])
               @ (if g \<and> thumb l \<noteq> None \<and> thumb r \<noteq> None then [[176, 22, max 0 (min 127 v3)]] else [])
               @ (if g \<and> index l \<noteq> None \<and> index r \<noteq> None then [[176, 23, max 0 (min 127 v4)]] else [])"
      by force
    then show ?thesis using that by blast
  qed
  define new where "new =
                 (if g \<and> thumb l \<noteq> None \<and> index l \<noteq> None then [[176, 20, max 0 (min 127 v1)]] else [])
               @ (if g \<and> thumb r \<noteq> None \<and> index r \<noteq> None then [[176, 21, max 0 (min 127 v2)]] else [])
               @ (if g \<and> thumb l \<noteq> None \<and> thumb r \<noteq> None then [[176, 22, max 0 (min 127 v3)]] else [])
               @ (if g \<and> index l \<noteq> None \<and> index r \<noteq> None then [[176, 23, max 0 (min 127 v4)]] else [])"
  define st' where "st' = \<lparr>last_send = (if g then now_time inp else last_send st),
                            midi_port = midi w', shown = shown st @ [frame w']\<rparr>"
  have run: "run_frame cfg st inp = Inr st'"
    using assms(2) l r res
    by (simp add: run_frame_def then_do_def py_getitem_def Let_def g_def st'_def)
  have mp: "midi_port st' = midi_port st @ new"
    using mw mid by (simp add: st'_def new_def)
  have off: "\<not> g \<longrightarrow> new = [] \<and> last_send st' = last_send st"
    by (simp add: new_def st'_def)
  have ls: "g \<longrightarrow> last_send st' = now_time inp" by (simp add: st'_def)
  have m1: "g \<longrightarrow> ((\<exists>v. [176, CC_LEFT_HAND, v] \<in> set new) \<longleftrightarrow> thumb l \<noteq> None \<and> index l \<noteq> None)"
    by (simp add: new_def CC_LEFT_HAND_def)
  have m2: "g \<longrightarrow> ((\<exists>v. [176, CC_RIGHT_HAND, v] \<in> set new) \<longleftrightarrow> thumb r \<noteq> None \<and> index r \<noteq> None)"
    by (simp add: new_def CC_RIGHT_HAND_def)
  have m3: "g \<longrightarrow> ((\<exists>v. [176, CC_THUMB_TO_THUMB, v] \<in> set new) \<longleftrightarrow> thumb l \<noteq> None \<and> thumb r \<noteq> None)"
    by (simp add: new_def CC_THUMB_TO_THUMB_def)
  have m4: "g \<longrightarrow> ((\<exists>v. [176, CC_INDEX_TO_INDEX, v] \<in> set new) \<longleftrightarrow> index l \<noteq> None \<and> index r \<noteq> None)"
    by (simp add: new_def CC_INDEX_TO_INDEX_def)
  show ?thesis
    apply (rule exI [of _ st'])
    apply (rule exI [of _ new])
    apply (rule exI [of _ l])
    apply (rule exI [of _ r])
    using run l r mp off ls m1 m2 m3 m4 unfolding g_def apply simp
    done
qed

theorem single_shared_gate_witness:
  "MIN_DIST_PX default_config \<noteq> MAX_DIST_PX default_config
   \<and> run_coords \<lparr>frame = [], midi = midi_port initial_state\<rparr> \<lparr>ret = True, shape = (200, 200),
         multi_hand_landmarks = Some [[(0, 0), (0, 0), (0, 0), (0, 0), (1 / 2, 1 / 2), (0, 0), (0, 0), (0, 0), (1 / 2, 3 / 4)]],
         multi_handedness = Some [[''Left'']], now_time = 1, key = 0\<rparr> = Inr (\<lparr>frame = [Circle (100, 100) 8 (0, 255, 0) (- 1), Circle (100, 150) 8 (0, 0, 255) (- 1),
                  Line (100, 100) (100, 150) (255, 0, 0) 2,
                  Skeleton [(0, 0), (0, 0), (0, 0), (0, 0), (1 / 2, 1 / 2), (0, 0), (0, 0), (0, 0), (1 / 2, 3 / 4)]],
          midi = []\<rparr>, [''Right'' \<mapsto> \<lparr>thumb = None, index = None\<rparr>,
         ''Left'' \<mapsto> \<lparr>thumb = Some (100, 100), index = Some (100, 150)\<rparr>])
   \<and> send_midi_now (now_time \<lparr>ret = True, shape = (200, 200),
         multi_hand_landmarks = Some [[(0, 0), (0, 0), (0, 0), (0, 0), (1 / 2, 1 / 2), (0, 0), (0, 0), (0, 0), (1 / 2, 3 / 4)]],
         multi_handedness = Some [[''Left'']], now_time = 1, key = 0\<rparr>) (last_send initial_state)
   \<and> (\<exists>st' new l r. run_frame default_config initial_state \<lparr>ret = True, shape = (200, 200),
         multi_hand_landmarks = Some [[(0, 0), (0, 0), (0, 0), (0, 0), (1 / 2, 1 / 2), (0, 0), (0, 0), (0, 0), (1 / 2, 3 / 4)]],
         multi_handedness = Some [[''Left'']], now_time = 1, key = 0\<rparr> = Inr st'
         \<and> ([''Right'' \<mapsto> \<lparr>thumb = None, index = None\<rparr>,
         ''Left'' \<mapsto> \<lparr>thumb = Some (100, 100), index = Some (100, 150)\<rparr>]) ''Left'' = Some l \<and> ([''Right'' \<mapsto> \<lparr>thumb = None, index = None\<rparr>,
         ''Left'' \<mapsto> \<lparr>thumb = Some (100, 100), index = Some (100, 150)\<rparr>]) ''Right'' = Some r
         \<and> midi_port st' = midi_port initial_state @ new
         \<and> last_send st' = 1
         \<and> (\<exists>v. [176, CC_LEFT_HAND, v] \<in> set new)
         \<and> \<not> (\<exists>v. [176, CC_RIGHT_HAND, v] \<in> set new)
         \<and> \<not> (\<exists>v. [176, CC_THUMB_TO_THUMB, v] \<in> set new)
         \<and> \<not> (\<exists>v. [176, CC_INDEX_TO_INDEX, v] \<in> set new))
   \<and> run_coords \<lparr>frame = [], midi = midi_port initial_state\<rparr> \<lparr>ret = True, shape = (200, 200),
         multi_hand_landmarks = Some [[(0, 0), (0, 0), (0, 0), (0, 0), (1 / 2, 1 / 2), (0, 0), (0, 0), (0, 0), (1 / 2, 3 / 4)]],
         multi_handedness = Some [[''Left'']], now_time = 0, key = 0\<rparr> = Inr (\<lparr>frame = [Circle (100, 100) 8 (0, 255, 0) (- 1), Circle (100, 150) 8 (0, 0, 255) (- 1),
                  Line (100, 100) (100, 150) (255, 0, 0) 2,
                  Skeleton [(0, 0), (0, 0), (0, 0), (0, 0), (1 / 2, 1 / 2), (0, 0), (0, 0), (0, 0), (1 / 2, 3 / 4)]],
          midi = []\<rparr>, [''Right'' \<mapsto> \<lparr>thumb = None, index = None\<rparr>,
         ''Left'' \<mapsto> \<lparr>thumb = Some (100, 100), index = Some (100, 150)\<rparr>])
   \<and> \<not> send_midi_now (now_time \<lparr>ret = True, shape = (200, 200),
         multi_hand_landmarks = Some [[(0, 0), (0, 0), (0, 0), (0, 0), (1 / 2, 1 / 2), (0, 0), (0, 0), (0, 0), (1 / 2, 3 / 4)]],
         multi_handedness = Some [[''Left'']], now_time = 0, key = 0\<rparr>) (last_send initial_state)
   \<and> (\<exists>st' new l r. run_frame default_config initial_state \<lparr>ret = True, shape = (200, 200),
         multi_hand_landmarks = Some [[(0, 0), (0, 0), (0, 0), (0, 0), (1 / 2, 1 / 2), (0, 0), (0, 0), (0, 0), (1 / 2, 3 / 4)]],
         multi_handedness = Some [[''Left'']], now_time = 0, key = 0\<rparr> = Inr st'
         \<and> ([''Right'' \<mapsto> \<lparr>thumb = None, index = None\<rparr>,
         ''Left'' \<mapsto> \<lparr>thumb = Some (100, 100), index = Some (100, 150)\<rparr>]) ''Left'' = Some l \<and> ([''Right'' \<mapsto> \<lparr>thumb = None, index = None\<rparr>,
         ''Left'' \<mapsto> \<lparr>thumb = Some (100, 100), index = Some (100, 150)\<rparr>]) ''Right'' = Some r
         \<and> midi_port st' = midi_port initial_state @ new
         \<and> new = [] \<and> last_send st' = last_send initial_state)"
proof -
  have g1: "send_midi_now (now_time \<lparr>ret = True, shape = (200, 200),
         multi_hand_landmarks = Some [[(0, 0), (0, 0), (0, 0), (0, 0), (1 / 2, 1 / 2), (0, 0), (0, 0), (0, 0), (1 / 2, 3 / 4)]],
         multi_handedness = Some [[''Left'']], now_time = 1, key = 0\<rparr>) (last_send initial_state)"
    by (simp add: send_midi_now_def initial_state_def initial_last_send_def send_interval_def)
  have g0: "\<not> send_midi_now (now_time \<lparr>ret = True, shape = (200, 200),
         multi_hand_landmarks = Some [[(0, 0), (0, 0), (0, 0), (0, 0), (1 / 2, 1 / 2), (0, 0), (0, 0), (0, 0), (1 / 2, 3 / 4)]],
         multi_handedness = Some [[''Left'']], now_time = 0, key = 0\<rparr>) (last_send initial_state)"
    by (simp add: send_midi_now_def initial_state_def initial_last_send_def send_interval_def)
  have ne: "MIN_DIST_PX default_config \<noteq> MAX_DIST_PX default_config"
    by (simp add: default_config_def)
  have c1: "run_coords \<lparr>frame = [], midi = midi_port initial_state\<rparr> \<lparr>ret = True, shape = (200, 200),
         multi_hand_landmarks = Some [[(0, 0), (0, 0), (0, 0), (0, 0), (1 / 2, 1 / 2), (0, 0), (0, 0), (0, 0), (1 / 2, 3 / 4)]],
         multi_handedness = Some [[''Left'']], now_time = 1, key = 0\<rparr> = Inr (\<lparr>frame = [Circle (100, 100) 8 (0, 255, 0) (- 1), Circle (100, 150) 8 (0, 0, 255) (- 1),
                  Line (100, 100) (100, 150) (255, 0, 0) 2,
                  Skeleton [(0, 0), (0, 0), (0, 0), (0, 0), (1 / 2, 1 / 2), (0, 0), (0, 0), (0, 0), (1 / 2, 3 / 4)]],
          midi = []\<rparr>, [''Right'' \<mapsto> \<lparr>thumb = None, index = None\<rparr>,
         ''Left'' \<mapsto> \<lparr>thumb = Some (100, 100), index = Some (100, 150)\<rparr>])"
    by (simp add: run_coords_left_example initial_state_def)
  have c0: "run_coords \<lparr>frame = [], midi = midi_port initial_state\<rparr> \<lparr>ret = True, shape = (200, 200),
         multi_hand_landmarks = Some [[(0, 0), (0, 0), (0, 0), (0, 0), (1 / 2, 1 / 2), (0, 0), (0, 0), (0, 0), (1 / 2, 3 / 4)]],
         multi_handedness = Some [[''Left'']], now_time = 0, key = 0\<rparr> = Inr (\<lparr>frame = [Circle (100, 100) 8 (0, 255, 0) (- 1), Circle (100, 150) 8 (0, 0, 255) (- 1),
                  Line (100, 100) (100, 150) (255, 0, 0) 2,
                  Skeleton [(0, 0), (0, 0), (0, 0), (0, 0), (1 / 2, 1 / 2), (0, 0), (0, 0), (0, 0), (1 / 2, 3 / 4)]],
          midi = []\<rparr>, [''Right'' \<mapsto> \<lparr>thumb = None, index = None\<rparr>,
         ''Left'' \<mapsto> \<lparr>thumb = Some (100, 100), index = Some (100, 150)\<rparr>])"
    by (simp add: run_coords_left_example initial_state_def)
  have a: "\<exists>st' new l r. run_frame default_config initial_state \<lparr>ret = True, shape = (200, 200),
         multi_hand_landmarks = Some [[(0, 0), (0, 0), (0, 0), (0, 0), (1 / 2, 1 / 2), (0, 0), (0, 0), (0, 0), (1 / 2, 3 / 4)]],
         multi_handedness = Some [[''Left'']], now_time = 1, key = 0\<rparr> = Inr st'
         \<and> ([''Right'' \<mapsto> \<lparr>thumb = None, index = None\<rparr>,
         ''Left'' \<mapsto> \<lparr>thumb = Some (100, 100), index = Some (100, 150)\<rparr>]) ''Left'' = Some l \<and> ([''Right'' \<mapsto> \<lparr>thumb = None, index = None\<rparr>,
         ''Left'' \<mapsto> \<lparr>thumb = Some (100, 100), index = Some (100, 150)\<rparr>]) ''Right'' = Some r
         \<and> midi_port st' = midi_port initial_state @ new
         \<and> last_send st' = 1
         \<and> (\<exists>v. [176, CC_LEFT_HAND, v] \<in> set new)
         \<and> \<not> (\<exists>v. [176, CC_RIGHT_HAND, v] \<in> set new)
         \<and> \<not> (\<exists>v. [176, CC_THUMB_TO_THUMB, v] \<in> set new)
         \<and> \<not> (\<exists>v. [176, CC_INDEX_TO_INDEX, v] \<in> set new)"
    using single_shared_gate [OF ne c1] g1 by simp
  have b: "\<exists>st' new l r. run_frame default_config initial_state \<lparr>ret = True, shape = (200, 200),
         multi_hand_landmarks = Some [[(0, 0), (0, 0), (0, 0), (0, 0), (1 / 2, 1 / 2), (0, 0), (0, 0), (0, 0), (1 / 2, 3 / 4)]],
         multi_handedness = Some [[''Left'']], now_time = 0, key = 0\<rparr> = Inr st'
         \<and> ([''Right'' \<mapsto> \<lparr>thumb = None, index = None\<rparr>,
         ''Left'' \<mapsto> \<lparr>thumb = Some (100, 100), index = Some (100, 150)\<rparr>]) ''Left'' = Some l \<and> ([''Right'' \<mapsto> \<lparr>thumb = None, index = None\<rparr>,
         ''Left'' \<mapsto> \<lparr>thumb = Some (100, 100), index = Some (100, 150)\<rparr>]) ''Right'' = Some r
         \<and> midi_port st' = midi_port initial_state @ new
         \<and> new = [] \<and> last_send st' = last_send initial_state"
    using single_shared_gate [OF ne c0] g0 by simp
  show ?thesis using ne c1 g1 a c0 g0 b by blast
qed

end
